theory Spec2Isabelle
  imports Complex_Main
begin

section \<open>Shallow embedding of \<open>training_pipeline.py\<close>\<close>

text \<open>
  The development follows \<open>src/python/training_pipeline.py\<close>: the two resize helpers
  \<open>preprocess_image\<close> and \<open>resize_mask\<close>, and the body of \<open>train_classifier_op\<close>.

  Conventions of the embedding.
  \<^item> Python integers are \<open>int\<close>; array sizes and indices are \<open>nat\<close>.
  \<^item> Floating-point numbers are modelled by \<open>real\<close>: an arithmetic operation of the
    source is the exact operation here, rounding is not modelled. Order comparisons are
    exact in floating point as well.
  \<^item> A Python exception is a value of \<open>py_error\<close>; a computation that may raise returns
    \<open>py_error + 'a\<close>, with \<open>Inl\<close> for the exception.
  \<^item> Calls into libraries whose result is not determined by this file (the two image
    resamplers, the ONNX feature extractor, the scikit-learn solver, the skl2onnx
    converter) are fields of the record \<open>env\<close>.
\<close>

subsection \<open>Exceptions\<close>

datatype py_error =
    ValueError
  | IndexError
  | ZeroDivisionError
  | RuntimeError
  | OtherError string

fun exc_name :: "py_error \<Rightarrow> string" where
  "exc_name ValueError = ''ValueError''"
| "exc_name IndexError = ''IndexError''"
| "exc_name ZeroDivisionError = ''ZeroDivisionError''"
| "exc_name RuntimeError = ''RuntimeError''"
| "exc_name (OtherError s) = s"

text \<open>Sequencing of computations that may raise: the first exception wins.\<close>

definition and_then :: "py_error + 'a \<Rightarrow> ('a \<Rightarrow> py_error + 'b) \<Rightarrow> py_error + 'b" where
  "and_then m f = (case m of Inl e \<Rightarrow> Inl e | Inr v \<Rightarrow> f v)"

subsection \<open>Constants\<close>

definition PATCH_SIZE :: int where
  "PATCH_SIZE = 16"

definition IMAGE_SIZE :: int where
  "IMAGE_SIZE = 768"

definition IMAGENET_MEAN :: "real list" where
  "IMAGENET_MEAN = [0.485, 0.456, 0.406]"

definition IMAGENET_STD :: "real list" where
  "IMAGENET_STD = [0.229, 0.224, 0.225]"

subsection \<open>Python arithmetic\<close>

text \<open>\<open>a // b\<close> on integers: floor division, \<open>ZeroDivisionError\<close> for a zero divisor.\<close>

definition py_floordiv :: "int \<Rightarrow> int \<Rightarrow> py_error + int" where
  "py_floordiv a b = (if b = 0 then Inl ZeroDivisionError else Inr (a div b))"

text \<open>
  \<open>a / b\<close> on integers: true division. Python returns the double nearest to the exact
  quotient; the model returns the exact quotient.
\<close>

definition py_truediv :: "int \<Rightarrow> int \<Rightarrow> py_error + real" where
  "py_truediv a b = (if b = 0 then Inl ZeroDivisionError else Inr (real_of_int a / real_of_int b))"

text \<open>\<open>int(x)\<close> on a float: truncation toward zero.\<close>

definition py_int :: "real \<Rightarrow> int" where
  "py_int x = (if 0 \<le> x then \<lfloor>x\<rfloor> else \<lceil>x\<rceil>)"

subsection \<open>Patch geometry\<close>

text \<open>
  The patch grid and the target size as the two helpers compute them. \<open>target_size\<close> is
  the pair \<open>(h_patches * patch_size, w_patches * patch_size)\<close>, height first.
\<close>

record geometry =
  h_patches :: int
  w_patches :: int
  target_size :: "int \<times> int"

text \<open>Lines 36--39 of \<open>preprocess_image\<close>.\<close>

definition preprocess_image_geometry :: "int \<times> int \<Rightarrow> int \<Rightarrow> int \<Rightarrow> py_error + geometry" where
  "preprocess_image_geometry sz image_size patch_size =
     (case sz of (w, h) \<Rightarrow>
        and_then (py_floordiv image_size patch_size) (\<lambda>hp.
        and_then (py_truediv (w * image_size) (h * patch_size)) (\<lambda>q.
          let wp = py_int q in
          Inr \<lparr>h_patches = hp, w_patches = wp,
               target_size = (hp * patch_size, wp * patch_size)\<rparr>)))"

text \<open>Lines 48--51 of \<open>resize_mask\<close>.\<close>

definition resize_mask_geometry :: "int \<times> int \<Rightarrow> int \<Rightarrow> int \<Rightarrow> py_error + geometry" where
  "resize_mask_geometry sz image_size patch_size =
     (case sz of (w, h) \<Rightarrow>
        and_then (py_truediv image_size patch_size) (\<lambda>r.
        let hp = py_int r in
        and_then (py_truediv (w * image_size) (h * patch_size)) (\<lambda>q.
          let wp = py_int q in
          Inr \<lparr>h_patches = hp, w_patches = wp,
               target_size = (hp * patch_size, wp * patch_size)\<rparr>)))"

subsection \<open>Images and tensors\<close>

text \<open>
  A decoded PIL image: its mode string, its size \<open>(width, height)\<close> and its raster, a list
  of \<open>height\<close> rows of \<open>width\<close> pixels, each pixel the list of its band values (0 to 255).
\<close>

record pil_image =
  img_mode :: string
  img_size :: "nat \<times> nat"
  img_data :: "real list list list"

text \<open>The number of bands of a mode (\<open>len(img.getbands())\<close>).\<close>

definition getbands :: "string \<Rightarrow> nat" where
  "getbands m =
     (if m \<in> {''RGBA'', ''CMYK'', ''RGBX''} then 4
      else if m \<in> {''RGB'', ''YCbCr'', ''LAB'', ''HSV''} then 3
      else if m \<in> {''LA'', ''PA''} then 2
      else 1)"

text \<open>\<open>img.convert("RGB")\<close> on an RGBA image: the alpha band is dropped.\<close>

definition convert_RGB :: "pil_image \<Rightarrow> pil_image" where
  "convert_RGB img = img\<lparr>img_mode := ''RGB'', img_data := map (map (take 3)) (img_data img)\<rparr>"

text \<open>\<open>img.split()[-1]\<close>: the last band as a single-band image of the same size.\<close>

definition split_last :: "pil_image \<Rightarrow> pil_image" where
  "split_last img = img\<lparr>img_mode := ''L'', img_data := map (map (\<lambda>px. [last px])) (img_data img)\<rparr>"

text \<open>
  A raster has shape \<open>h \<times> w \<times> c\<close>: \<open>h\<close> rows, each of \<open>w\<close> pixels, each of \<open>c\<close> values.
  A plane has shape \<open>h \<times> w\<close>.
\<close>

definition raster_shape :: "real list list list \<Rightarrow> nat \<Rightarrow> nat \<Rightarrow> nat \<Rightarrow> bool" where
  "raster_shape a h w c \<longleftrightarrow>
     length a = h \<and> list_all (\<lambda>row. length row = w \<and> list_all (\<lambda>px. length px = c) row) a"

definition plane_shape :: "real list list \<Rightarrow> nat \<Rightarrow> nat \<Rightarrow> bool" where
  "plane_shape p h w \<longleftrightarrow> length p = h \<and> list_all (\<lambda>row. length row = w) p"

text \<open>
  \<open>TF.to_tensor\<close> on a PIL image: a channel-first tensor \<open>[bands, height, width]\<close> with the
  band values divided by 255.
\<close>

definition to_tensor :: "pil_image \<Rightarrow> real list list list" where
  "to_tensor img =
     map (\<lambda>c. map (map (\<lambda>px. px ! c / 255)) (img_data img)) [0..<getbands (img_mode img)]"

subsection \<open>Label quantizer\<close>

text \<open>
  \<open>torch.nn.Conv2d(1, 1, k, stride=s, bias=False)\<close> on an unbatched input \<open>[1, H, W]\<close>, with
  the \<open>k \<times> k\<close> kernel \<open>wgt\<close>: no padding, output \<open>[1, (H - k) div s + 1, (W - k) div s + 1]\<close>.
  An input with another channel count, or smaller than the kernel, raises \<open>RuntimeError\<close>.
\<close>

definition conv_out :: "nat \<Rightarrow> nat \<Rightarrow> nat \<Rightarrow> nat" where
  "conv_out n k s = (n - k) div s + 1"

definition plane_width :: "real list list \<Rightarrow> nat" where
  "plane_width p = (case p of [] \<Rightarrow> 0 | row # _ \<Rightarrow> length row)"

definition window_sum :: "real list list \<Rightarrow> real list list \<Rightarrow> nat \<Rightarrow> nat \<Rightarrow> real" where
  "window_sum wgt p y0 x0 =
     sum_list (map (\<lambda>i. sum_list (map (\<lambda>j. wgt ! i ! j * p ! (y0 + i) ! (x0 + j))
                                      [0..<length wgt])) [0..<length wgt])"

definition conv2d :: "real list list \<Rightarrow> nat \<Rightarrow> real list list list \<Rightarrow> py_error + real list list list" where
  "conv2d wgt stride x =
     (case x of
        [p] \<Rightarrow>
          (let k = length wgt; H = length p; W = plane_width p in
           if H < k \<or> W < k then Inl RuntimeError
           else Inr [map (\<lambda>r. map (\<lambda>c. window_sum wgt p (r * stride) (c * stride))
                                  [0..<conv_out W k stride])
                         [0..<conv_out H k stride]])
      | _ \<Rightarrow> Inl RuntimeError)"

text \<open>Lines 97--98: the kernel is filled with \<open>1.0 / (PATCH_SIZE * PATCH_SIZE)\<close>.\<close>

definition patch_quant_weight :: "real list list" where
  "patch_quant_weight =
     replicate (nat PATCH_SIZE)
       (replicate (nat PATCH_SIZE) (1 / real_of_int (PATCH_SIZE * PATCH_SIZE)))"

definition patch_quant_filter :: "real list list list \<Rightarrow> py_error + real list list list" where
  "patch_quant_filter x = conv2d patch_quant_weight (nat PATCH_SIZE) x"

text \<open>
  Line 109: \<open>patch_quant_filter(mask_tensor).squeeze().view(-1)\<close>. Dropping the axes of
  size one and flattening gives the entries in row-major order.
\<close>

definition mask_quantized :: "real list list list \<Rightarrow> py_error + real list" where
  "mask_quantized mask_tensor =
     and_then (patch_quant_filter mask_tensor) (\<lambda>t. Inr (concat (concat t)))"

text \<open>
  The arithmetic mean of the \<open>16 \<times> 16\<close> pixels of the patch in row \<open>r\<close> and column \<open>c\<close>
  of the patch grid, as the specification words it.
\<close>

definition patch_mean :: "real list list \<Rightarrow> nat \<Rightarrow> nat \<Rightarrow> real" where
  "patch_mean p r c =
     sum_list (map (\<lambda>i. sum_list (map (\<lambda>j. p ! (r * 16 + i) ! (c * 16 + j)) [0..<16])) [0..<16]) / 256"

subsection \<open>Normalisation of the resized image\<close>

text \<open>The shape \<open>(H, W, C)\<close> of \<open>np.array(resized_img)\<close>, read off the raster.\<close>

definition shape3 :: "real list list list \<Rightarrow> nat \<times> nat \<times> nat" where
  "shape3 a =
     (length a,
      (case a of [] \<Rightarrow> 0 | row # _ \<Rightarrow> length row),
      (case a of (px # _) # _ \<Rightarrow> length px | _ \<Rightarrow> 0))"

text \<open>Line 41: \<open>np.array(resized_img, dtype=np.float32) / 255.0\<close>.\<close>

definition scale_255 :: "real list list list \<Rightarrow> real list list list" where
  "scale_255 a = map (map (map (\<lambda>v. v / 255))) a"

text \<open>
  Line 44: \<open>(img_np - mean) / std\<close>, the two vectors of length 3 broadcast over the last
  axis of a three-band raster. For a raster with another number of bands the source
  raises \<open>ValueError\<close>, at this line or at the transposition of line 45 (a single-band
  image gives a two-dimensional array, which has no axis 2); the model raises it here.
\<close>

definition normalize_bands :: "real list list list \<Rightarrow> py_error + real list list list" where
  "normalize_bands a =
     (case shape3 a of (H, W, C) \<Rightarrow>
        if C \<noteq> 3 then Inl ValueError
        else Inr (map (map (\<lambda>px.
               map (\<lambda>c. (px ! c - IMAGENET_MEAN ! c) / IMAGENET_STD ! c) [0..<3])) a))"

text \<open>Line 45: \<open>transpose(2, 0, 1)\<close> moves the band axis first; \<open>[np.newaxis, :, :]\<close> adds
  a leading axis of length one.\<close>

definition transpose_201 :: "real list list list \<Rightarrow> real list list list" where
  "transpose_201 a =
     (case shape3 a of (H, W, C) \<Rightarrow>
        map (\<lambda>c. map (\<lambda>y. map (\<lambda>x. a ! y ! x ! c) [0..<W]) [0..<H]) [0..<C])"

definition newaxis :: "'a \<Rightarrow> 'a list" where
  "newaxis a = [a]"

definition normalize_image :: "real list list list \<Rightarrow> py_error + real list list list list" where
  "normalize_image resized =
     and_then (normalize_bands (scale_255 resized)) (\<lambda>n. Inr (newaxis (transpose_201 n)))"

subsection \<open>Library calls\<close>

text \<open>A two-dimensional array: its second dimension and its rows.\<close>

record array2 =
  arr_ncols :: nat
  arr_rows :: "real list list"

text \<open>A fitted binary \<open>LogisticRegression\<close>.\<close>

record classifier =
  coef :: "real list"
  intercept :: real

text \<open>The arguments of \<open>to_onnx\<close>, and what its result declares.\<close>

datatype tensor_type = FloatTensorType "nat option list"

record onnx_request =
  req_model :: classifier
  initial_types :: "(string \<times> tensor_type) list"
  zipmap :: bool
  target_opset :: nat

datatype output_kind = FlatTensor | SequenceOfMaps

record onnx_model =
  graph_inputs :: "(string \<times> tensor_type) list"
  probabilities :: output_kind
  opset_version :: nat
  graph_model :: classifier

text \<open>
  The library calls of the op.
  \<^item> \<open>pil_resize img (w, h)\<close>: \<open>img.resize((w, h), Image.Resampling.BICUBIC)\<close>;
  \<^item> \<open>tf_resize img (h, w)\<close>: \<open>TF.resize(img, (h, w))\<close>;
  \<^item> \<open>ort_run t\<close>: \<open>ort_sess.run(None, {input_name: t})[0]\<close>, a tensor \<open>[B, N, D]\<close> given as
    its \<open>B\<close> slices;
  \<^item> \<open>fit X y\<close>: \<open>LogisticRegression(C=1.0, max_iter=1000, n_jobs=-1).fit(X, y)\<close>;
  \<^item> \<open>to_onnx r\<close>: \<open>skl2onnx.to_onnx\<close> with the arguments \<open>r\<close>.
\<close>

record env =
  pil_resize :: "pil_image \<Rightarrow> int \<times> int \<Rightarrow> py_error + pil_image"
  tf_resize :: "pil_image \<Rightarrow> int \<times> int \<Rightarrow> py_error + pil_image"
  ort_run :: "real list list list list \<Rightarrow> py_error + array2 list"
  fit :: "array2 \<Rightarrow> int list \<Rightarrow> py_error + classifier"
  to_onnx :: "onnx_request \<Rightarrow> py_error + onnx_model"

subsection \<open>The two helpers\<close>

text \<open>
  \<open>Image.resize\<close> takes \<open>(width, height)\<close> and is called with
  \<open>(target_size[1], target_size[0])\<close>; \<open>TF.resize\<close> takes \<open>(height, width)\<close> and is called
  with \<open>target_size\<close>.
\<close>

definition preprocess_image :: "env \<Rightarrow> pil_image \<Rightarrow> int \<Rightarrow> int \<Rightarrow> py_error + real list list list list" where
  "preprocess_image env img_pil image_size patch_size =
     (case img_size img_pil of (w, h) \<Rightarrow>
        and_then (preprocess_image_geometry (int w, int h) image_size patch_size) (\<lambda>g.
        and_then (pil_resize env img_pil (snd (target_size g), fst (target_size g))) (\<lambda>resized_img.
          normalize_image (img_data resized_img))))"

definition resize_mask :: "env \<Rightarrow> pil_image \<Rightarrow> int \<Rightarrow> int \<Rightarrow> py_error + real list list list" where
  "resize_mask env mask_pil image_size patch_size =
     (case img_size mask_pil of (w, h) \<Rightarrow>
        and_then (resize_mask_geometry (int w, int h) image_size patch_size) (\<lambda>g.
        and_then (tf_resize env mask_pil (target_size g)) (\<lambda>r. Inr (to_tensor r))))"

subsection \<open>Clean subset and training targets\<close>

text \<open>Line 125: \<open>idx = (ys < 0.01) | (ys > 0.99)\<close>, an elementwise Boolean mask.\<close>

definition clean_idx :: "real list \<Rightarrow> bool list" where
  "clean_idx ys = map (\<lambda>y. y < 0.01 \<or> y > 0.99) ys"

text \<open>
  \<open>a[idx]\<close> with a Boolean mask over the first axis: the entries whose mask bit is set,
  in order. NumPy raises \<open>IndexError\<close> when the lengths differ; here the mask is always
  computed from a table of the same length.
\<close>

definition mask_select :: "'a list \<Rightarrow> bool list \<Rightarrow> 'a list" where
  "mask_select xs idx = map fst (filter snd (zip xs idx))"

text \<open>The positions a Boolean mask selects (\<open>np.nonzero(idx)\<close>), in increasing order.\<close>

definition mask_positions :: "bool list \<Rightarrow> nat list" where
  "mask_positions idx = filter (\<lambda>i. idx ! i) [0..<length idx]"

text \<open>Line 133: the targets handed to \<open>fit\<close>, \<open>(ys_clean > 0).astype(int)\<close>.\<close>

definition fit_targets :: "real list \<Rightarrow> int list" where
  "fit_targets ys_clean = map (\<lambda>y. if y > 0 then 1 else 0) ys_clean"

subsection \<open>The body of the op\<close>

text \<open>\<open>feats.squeeze(0)\<close>: the first axis must have length one, else \<open>ValueError\<close>.\<close>

definition squeeze0 :: "'a list \<Rightarrow> py_error + 'a" where
  "squeeze0 t = (case t of [a] \<Rightarrow> Inr a | _ \<Rightarrow> Inl ValueError)"

text \<open>
  Lines 103--118, for an image of mode RGBA: the quantized mask and the features that
  are appended to \<open>ys\<close> and \<open>xs\<close>.
\<close>

definition process_image :: "env \<Rightarrow> pil_image \<Rightarrow> py_error + (real list \<times> array2)" where
  "process_image env img =
     (let rgb_img = convert_RGB img; mask_img = split_last img in
      and_then (resize_mask env mask_img IMAGE_SIZE PATCH_SIZE) (\<lambda>mask_tensor.
      and_then (mask_quantized mask_tensor) (\<lambda>mq.
      and_then (preprocess_image env rgb_img IMAGE_SIZE PATCH_SIZE) (\<lambda>img_input.
      and_then (ort_run env img_input) (\<lambda>out.
      and_then (squeeze0 out) (\<lambda>feats. Inr (mq, feats)))))))"

text \<open>
  Lines 100--118: the loop over the opened images, threading the two lists \<open>xs\<close> and
  \<open>ys\<close>. An image whose mode is not \<open>RGBA\<close> is passed over by \<open>continue\<close>.
\<close>

fun aligner_loop ::
  "env \<Rightarrow> pil_image list \<Rightarrow> array2 list \<times> real list list \<Rightarrow> py_error + (array2 list \<times> real list list)" where
  "aligner_loop env [] acc = Inr acc"
| "aligner_loop env (img # rest) (xs, ys) =
     (if img_mode img \<noteq> ''RGBA'' then aligner_loop env rest (xs, ys)
      else and_then (process_image env img) (\<lambda>(mq, feats).
             aligner_loop env rest (xs @ [feats], ys @ [mq])))"

text \<open>
  \<open>np.concatenate(\<dots>, axis=0)\<close>: \<open>ValueError\<close> for an empty list, and for arrays whose
  other dimensions differ.
\<close>

definition np_concatenate_rows :: "array2 list \<Rightarrow> py_error + array2" where
  "np_concatenate_rows xs =
     (case xs of
        [] \<Rightarrow> Inl ValueError
      | a # as \<Rightarrow>
          if list_all (\<lambda>b. arr_ncols b = arr_ncols a) as
          then Inr \<lparr>arr_ncols = arr_ncols a, arr_rows = concat (map arr_rows (a # as))\<rparr>
          else Inl ValueError)"

definition np_concatenate_flat :: "real list list \<Rightarrow> py_error + real list" where
  "np_concatenate_flat ys = (case ys of [] \<Rightarrow> Inl ValueError | _ \<Rightarrow> Inr (concat ys))"

text \<open>\<open>xs[idx]\<close> on the rows of a two-dimensional array: \<open>IndexError\<close> when the mask
  and the first axis differ in length.\<close>

definition np_mask_rows :: "array2 \<Rightarrow> bool list \<Rightarrow> py_error + array2" where
  "np_mask_rows a idx =
     (if length idx \<noteq> length (arr_rows a) then Inl IndexError
      else Inr (a\<lparr>arr_rows := mask_select (arr_rows a) idx\<rparr>))"

text \<open>Lines 139--151: the arguments of \<open>to_onnx\<close>, and the call.\<close>

definition export_request :: "classifier \<Rightarrow> array2 \<Rightarrow> onnx_request" where
  "export_request clf xs_clean =
     (let feature_dim = arr_ncols xs_clean in
      \<lparr>req_model = clf,
       initial_types = [(''patch_features'', FloatTensorType [None, Some feature_dim])],
       zipmap = False,
       target_opset = 17\<rparr>)"

definition export_classifier :: "env \<Rightarrow> classifier \<Rightarrow> array2 \<Rightarrow> py_error + onnx_model" where
  "export_classifier env clf xs_clean = to_onnx env (export_request clf xs_clean)"

text \<open>Lines 120--151: concatenation, filter, fit and export.\<close>

definition train_and_export :: "env \<Rightarrow> array2 list \<Rightarrow> real list list \<Rightarrow> py_error + onnx_model" where
  "train_and_export env xs ys =
     and_then (np_concatenate_rows xs) (\<lambda>X.
     and_then (np_concatenate_flat ys) (\<lambda>Y.
       let idx = clean_idx Y in
       and_then (np_mask_rows X idx) (\<lambda>xs_clean.
         let ys_clean = mask_select Y idx in
         and_then (fit env xs_clean (fit_targets ys_clean)) (\<lambda>clf.
           export_classifier env clf xs_clean))))"

text \<open>Lines 94--157, the part of the \<open>try\<close> block that works on the opened images.\<close>

definition training_body :: "env \<Rightarrow> pil_image list \<Rightarrow> py_error + onnx_model" where
  "training_body env imgs =
     and_then (aligner_loop env imgs ([], [])) (\<lambda>(xs, ys). train_and_export env xs ys)"

subsection \<open>Status of the dataset record\<close>

text \<open>
  The fields of the PocketBase record the op writes. An update is a write that succeeds;
  the op returns the record as it stands after each of its updates, oldest first, and
  the outcome of the run: \<open>Inl e\<close> when the exception \<open>e\<close> leaves the op.
  The exceptions of the model are instances of \<open>Exception\<close>, the class the handler
  of line 171 catches.
\<close>

record dataset_record =
  status :: string
  classifier_file :: "onnx_model option"

definition train_classifier_op ::
  "env \<Rightarrow> dataset_record \<Rightarrow> pil_image list \<Rightarrow> dataset_record list \<times> (py_error + unit)" where
  "train_classifier_op env record imgs =
     (let r1 = record\<lparr>status := ''training''\<rparr> in
      case training_body env imgs of
        Inr onx \<Rightarrow> ([r1, r1\<lparr>status := ''ready'', classifier_file := Some onx\<rparr>], Inr ())
      | Inl e \<Rightarrow> ([r1, r1\<lparr>status := ''failed''\<rparr>], Inl e))"

subsection \<open>Contracts of the library calls\<close>

text \<open>
  What the op relies on. A resampler that returns an image returns one of the mode it was
  given and of the requested size. The feature extractor, given a tensor
  \<open>[1, 3, nr * 16, nc * 16]\<close>, returns \<open>[1, nr * nc, D]\<close> when it returns. \<open>patch_count\<close> is the
  number of patches of an image, 48 rows by \<open>(w * 768) div (h * 16)\<close> columns.
\<close>

definition resamplers_ok :: "env \<Rightarrow> bool" where
  "resamplers_ok env \<longleftrightarrow>
     (\<forall>img w h r. pil_resize env img (w, h) = Inr r \<longrightarrow>
        img_mode r = img_mode img
        \<and> raster_shape (img_data r) (nat h) (nat w) (getbands (img_mode img)))
   \<and> (\<forall>img h w r. tf_resize env img (h, w) = Inr r \<longrightarrow>
        img_mode r = img_mode img
        \<and> raster_shape (img_data r) (nat h) (nat w) (getbands (img_mode img)))"

definition tensor_shape :: "real list list list list \<Rightarrow> nat \<Rightarrow> nat \<Rightarrow> bool" where
  "tensor_shape t H W \<longleftrightarrow>
     length t = 1 \<and> list_all (\<lambda>planes. length planes = 3 \<and> list_all (\<lambda>p. plane_shape p H W) planes) t"

definition extractor_ok :: "env \<Rightarrow> bool" where
  "extractor_ok env \<longleftrightarrow>
     (\<forall>t nr nc out. tensor_shape t (nr * 16) (nc * 16) \<and> ort_run env t = Inr out \<longrightarrow>
        (\<exists>a. out = [a] \<and> length (arr_rows a) = nr * nc
             \<and> list_all (\<lambda>v. length v = arr_ncols a) (arr_rows a)))"

definition patch_count :: "pil_image \<Rightarrow> nat" where
  "patch_count img = (case img_size img of (w, h) \<Rightarrow> 48 * ((w * 768) div (h * 16)))"

text \<open>
  A converter that returns a graph declares the inputs, the opset and the output
  container it was asked for: with \<open>zipmap\<close> off the class scores are one tensor, with it
  on they are a sequence of per-class maps.
\<close>

definition converter_ok :: "env \<Rightarrow> bool" where
  "converter_ok env \<longleftrightarrow>
     (\<forall>req m. to_onnx env req = Inr m \<longrightarrow>
        graph_inputs m = initial_types req
      \<and> opset_version m = target_opset req
      \<and> probabilities m = (if zipmap req then SequenceOfMaps else FlatTensor))"

subsection \<open>Sample inputs\<close>

text \<open>
  Library calls that honour their contracts, for instantiating the theorems below: both
  resamplers return a constant raster of the requested size (and raise \<open>ValueError\<close> for
  an empty one, as Pillow does), the extractor returns one two-dimensional feature vector
  per patch, the solver rejects an empty table with \<open>ValueError\<close> (as the input validation
  of scikit-learn does), and the converter declares what it is asked to declare.
\<close>

definition sample_env :: env where
  "sample_env =
     \<lparr>pil_resize = (\<lambda>img sz. case sz of (w, h) \<Rightarrow>
         if w \<le> 0 \<or> h \<le> 0 then Inl ValueError
         else Inr \<lparr>img_mode = img_mode img, img_size = (nat w, nat h),
                   img_data = replicate (nat h) (replicate (nat w)
                                (replicate (getbands (img_mode img)) 0))\<rparr>),
      tf_resize = (\<lambda>img sz. case sz of (h, w) \<Rightarrow>
         if w \<le> 0 \<or> h \<le> 0 then Inl ValueError
         else Inr \<lparr>img_mode = img_mode img, img_size = (nat w, nat h),
                   img_data = replicate (nat h) (replicate (nat w)
                                (replicate (getbands (img_mode img)) 255))\<rparr>),
      ort_run = (\<lambda>t. case t of
           [p # _] \<Rightarrow> Inr [\<lparr>arr_ncols = 2,
                              arr_rows = replicate ((length p div 16) * (plane_width p div 16)) [0, 0]\<rparr>]
         | _ \<Rightarrow> Inl RuntimeError),
      fit = (\<lambda>X y. if arr_rows X = [] then Inl ValueError
                    else Inr \<lparr>coef = replicate (arr_ncols X) 0, intercept = 0\<rparr>),
      to_onnx = (\<lambda>r. Inr \<lparr>graph_inputs = initial_types r,
                            probabilities = (if zipmap r then SequenceOfMaps else FlatTensor),
                            opset_version = target_opset r,
                            graph_model = req_model r\<rparr>)\<rparr>"

definition sample_rgb :: pil_image where
  "sample_rgb = \<lparr>img_mode = ''RGB'', img_size = (1, 1), img_data = [[[10, 20, 30]]]\<rparr>"

definition sample_rgba :: pil_image where
  "sample_rgba = \<lparr>img_mode = ''RGBA'', img_size = (1, 1), img_data = [[[10, 20, 30, 255]]]\<rparr>"

text \<open>A patch of the mask with a single foreground pixel, a dataset record, and the graph
  the sample converter returns for a two-dimensional feature space.\<close>

definition one_pixel_patch :: "real list list" where
  "one_pixel_patch = (1 # replicate 15 0) # replicate 15 (replicate 16 0)"

definition sample_record :: dataset_record where
  "sample_record = \<lparr>status = ''pending'', classifier_file = None\<rparr>"

definition sample_model :: onnx_model where
  "sample_model =
     \<lparr>graph_inputs = [(''patch_features'', FloatTensorType [None, Some 2])],
      probabilities = FlatTensor,
      opset_version = 17,
      graph_model = \<lparr>coef = [0, 0], intercept = 0\<rparr>\<rparr>"

section \<open>Auxiliary facts\<close>

lemma py_int_of_int [simp]: "py_int (real_of_int n) = n"
  by (simp add: py_int_def)

lemma py_int_quotient:
  assumes "0 \<le> a" "0 < b"
  shows "py_int (real_of_int a / real_of_int b) = a div b"
proof -
  have "0 \<le> real_of_int a / real_of_int b"
    using assms by simp
  then show ?thesis
    by (simp add: py_int_def floor_divide_of_int_eq)
qed

lemma preprocess_image_geometry_pos:
  assumes "0 < w" and "0 < h"
  shows "preprocess_image_geometry (w, h) IMAGE_SIZE PATCH_SIZE
           = Inr \<lparr>h_patches = 48, w_patches = (w * 768) div (h * 16),
                  target_size = (768, ((w * 768) div (h * 16)) * 16)\<rparr>"
proof -
  have q: "py_int (real_of_int (w * 768) / real_of_int (h * 16)) = (w * 768) div (h * 16)"
    using assms by (intro py_int_quotient) simp_all
  show ?thesis
    using assms q
    by (simp add: preprocess_image_geometry_def and_then_def py_floordiv_def py_truediv_def
        IMAGE_SIZE_def PATCH_SIZE_def Let_def)
qed

lemma resize_mask_geometry_pos:
  assumes "0 < w" and "0 < h"
  shows "resize_mask_geometry (w, h) IMAGE_SIZE PATCH_SIZE
           = Inr \<lparr>h_patches = 48, w_patches = (w * 768) div (h * 16),
                  target_size = (768, ((w * 768) div (h * 16)) * 16)\<rparr>"
proof -
  have q: "py_int (real_of_int (w * 768) / real_of_int (h * 16)) = (w * 768) div (h * 16)"
    using assms by (intro py_int_quotient) simp_all
  have r: "py_int (real_of_int 768 / real_of_int 16) = 48"
    by (simp add: py_int_def)
  show ?thesis
    using assms q r
    by (simp add: resize_mask_geometry_def and_then_def py_truediv_def
        IMAGE_SIZE_def PATCH_SIZE_def Let_def)
qed

lemma int_cols: "(int w * 768) div (int h * 16) = int ((w * 768) div (h * 16))"
  by (simp add: zdiv_int)

lemma mask_select_nth:
  "length xs = length idx \<Longrightarrow> mask_select xs idx = map (\<lambda>i. xs ! i) (mask_positions idx)"
proof (induction xs arbitrary: idx rule: rev_induct)
  case Nil
  then show ?case by (simp add: mask_select_def mask_positions_def)
next
  case (snoc x xs)
  then obtain b bs where idx: "idx = bs @ [b]" and len: "length xs = length bs"
    by (cases idx rule: rev_cases) auto
  have pos: "filter (\<lambda>i. (bs @ [b]) ! i) [0..<length bs] = filter (\<lambda>i. bs ! i) [0..<length bs]"
    by (rule filter_cong) (auto simp: nth_append)
  have sel: "map (\<lambda>i. (xs @ [x]) ! i) (filter (\<lambda>i. bs ! i) [0..<length bs])
             = map (\<lambda>i. xs ! i) (filter (\<lambda>i. bs ! i) [0..<length bs])"
    using len by (intro map_cong) (auto simp: nth_append)
  have ih: "mask_select xs bs = map (\<lambda>i. xs ! i) (mask_positions bs)"
    using snoc.IH len by simp
  show ?case
    using ih len pos sel
    by (simp add: idx mask_select_def mask_positions_def nth_append)
qed

subsection \<open>The label quantizer\<close>

lemma grid_index_less:
  fixes r c n m :: nat
  assumes "r < n" "c < m"
  shows "r * m + c < n * m"
proof -
  have "r * m + c < r * m + m" using assms by simp
  also have "\<dots> = Suc r * m" by simp
  also have "\<dots> \<le> n * m" using assms by (intro mult_le_mono1) simp
  finally show ?thesis .
qed

lemma length_concat_grid:
  "length (concat (map (\<lambda>r. map (f r) [0..<m]) [0..<n])) = n * m"
  by (induction n) simp_all

lemma concat_grid_nth:
  assumes "r < n" "c < m"
  shows "concat (map (\<lambda>r. map (f r) [0..<m]) [0..<n]) ! (r * m + c) = f r c"
  using assms
proof (induction n)
  case 0
  then show ?case by simp
next
  case (Suc n)
  show ?case
  proof (cases "r < n")
    case True
    then have "r * m + c < n * m" using Suc.prems by (intro grid_index_less) simp_all
    then show ?thesis
      using Suc.IH True Suc.prems by (simp add: nth_append length_concat_grid)
  next
    case False
    then have "r = n" using Suc.prems by simp
    then show ?thesis
      using Suc.prems by (simp add: nth_append length_concat_grid)
  qed
qed

lemma row_sum_uniform:
  fixes w :: real
  assumes "i < k"
  shows "sum_list (map (\<lambda>j. replicate k (replicate k w) ! i ! j * p ! (y0 + i) ! (x0 + j)) [0..<k])
        = w * sum_list (map (\<lambda>j. p ! (y0 + i) ! (x0 + j)) [0..<k])"
proof -
  have "map (\<lambda>j. replicate k (replicate k w) ! i ! j * p ! (y0 + i) ! (x0 + j)) [0..<k]
      = map (\<lambda>j. w * p ! (y0 + i) ! (x0 + j)) [0..<k]"
    using assms by (intro map_cong) simp_all
  then have "sum_list (map (\<lambda>j. replicate k (replicate k w) ! i ! j * p ! (y0 + i) ! (x0 + j)) [0..<k])
      = sum_list (map (\<lambda>j. w * p ! (y0 + i) ! (x0 + j)) [0..<k])"
    by (rule arg_cong)
  also have "\<dots> = w * sum_list (map (\<lambda>j. p ! (y0 + i) ! (x0 + j)) [0..<k])"
    by (rule sum_list_const_mult)
  finally show ?thesis .
qed

lemma window_sum_uniform:
  fixes w :: real
  shows "window_sum (replicate k (replicate k w)) p y0 x0
     = w * sum_list (map (\<lambda>i. sum_list (map (\<lambda>j. p ! (y0 + i) ! (x0 + j)) [0..<k])) [0..<k])"
proof -
  have "map (\<lambda>i. sum_list (map (\<lambda>j. replicate k (replicate k w) ! i ! j * p ! (y0 + i) ! (x0 + j)) [0..<k])) [0..<k]
      = map (\<lambda>i. w * sum_list (map (\<lambda>j. p ! (y0 + i) ! (x0 + j)) [0..<k])) [0..<k]"
    by (intro map_cong refl) (rule row_sum_uniform, simp)
  then have "window_sum (replicate k (replicate k w)) p y0 x0
      = sum_list (map (\<lambda>i. w * sum_list (map (\<lambda>j. p ! (y0 + i) ! (x0 + j)) [0..<k])) [0..<k])"
    unfolding window_sum_def length_replicate by (rule arg_cong)
  also have "\<dots> = w * sum_list (map (\<lambda>i. sum_list (map (\<lambda>j. p ! (y0 + i) ! (x0 + j)) [0..<k])) [0..<k])"
    by (rule sum_list_const_mult)
  finally show ?thesis .
qed

lemma conv_out_exact: "0 < n \<Longrightarrow> 0 < k \<Longrightarrow> conv_out (n * k) k k = n"
proof -
  assume "0 < n" "0 < k"
  then obtain n' where n: "n = Suc n'" by (cases n) auto
  have "(n * k - k) div k = n'" using \<open>0 < k\<close> by (simp add: n)
  then show ?thesis by (simp add: conv_out_def n)
qed

lemma plane_width_shape: "plane_shape p h w \<Longrightarrow> 0 < h \<Longrightarrow> plane_width p = w"
  by (cases p) (auto simp: plane_shape_def plane_width_def)

lemma mask_quantized_eq:
  fixes rows cols :: nat
  assumes "plane_shape p (rows * 16) (cols * 16)" "0 < rows" "0 < cols"
  shows "mask_quantized [p] = Inr (concat (map (\<lambda>r. map (patch_mean p r) [0..<cols]) [0..<rows]))"
proof -
  have len: "length p = rows * 16" using assms by (simp add: plane_shape_def)
  have wid: "plane_width p = cols * 16" using assms by (intro plane_width_shape[of p "rows * 16"]) simp_all
  have w: "patch_quant_weight = replicate 16 (replicate 16 (1 / 256))"
    by (simp add: patch_quant_weight_def PATCH_SIZE_def)
  have ws: "\<And>r c. window_sum patch_quant_weight p (r * 16) (c * 16) = patch_mean p r c"
    unfolding w window_sum_uniform by (simp add: patch_mean_def)
  have co_r: "conv_out (rows * 16) 16 16 = rows" using assms by (intro conv_out_exact) simp_all
  have co_c: "conv_out (cols * 16) 16 16 = cols" using assms by (intro conv_out_exact) simp_all
  have k: "length patch_quant_weight = 16" by (simp add: w)
  have big: "\<not> (length p < 16 \<or> plane_width p < 16)"
    using assms len wid by simp
  have "patch_quant_filter [p]
      = Inr [map (\<lambda>r. map (\<lambda>c. patch_mean p r c) [0..<cols]) [0..<rows]]"
    using big
    by (simp add: patch_quant_filter_def conv2d_def Let_def k ws PATCH_SIZE_def len wid co_r co_c)
  then show ?thesis by (simp add: mask_quantized_def and_then_def)
qed

lemma sum_list_const:
  fixes c :: real
  assumes "\<And>x. x \<in> set xs \<Longrightarrow> f x = c"
  shows "sum_list (map f xs) = real (length xs) * c"
  using assms by (induction xs) (simp_all add: algebra_simps)

lemma sum_list_between:
  fixes b :: real
  assumes "\<And>x. x \<in> set xs \<Longrightarrow> 0 \<le> f x \<and> f x \<le> b"
  shows "0 \<le> sum_list (map f xs) \<and> sum_list (map f xs) \<le> real (length xs) * b"
  using assms
proof (induction xs)
  case Nil
  then show ?case by simp
next
  case (Cons a xs)
  have a: "0 \<le> f a \<and> f a \<le> b" using Cons.prems by simp
  have "0 \<le> sum_list (map f xs) \<and> sum_list (map f xs) \<le> real (length xs) * b"
    using Cons by simp
  with a show ?case by (simp add: algebra_simps)
qed

lemma plane_pixel:
  fixes rows cols :: nat
  assumes "plane_shape p (rows * 16) (cols * 16)" "list_all (list_all P) p"
    and "r < rows" "c < cols" "i < 16" "j < 16"
  shows "P (p ! (r * 16 + i) ! (c * 16 + j))"
proof -
  have y: "r * 16 + i < length p"
    using assms grid_index_less[of r rows i 16] by (simp add: plane_shape_def)
  then have row: "p ! (r * 16 + i) \<in> set p" by simp
  have "length (p ! (r * 16 + i)) = cols * 16"
    using assms(1) row by (simp add: plane_shape_def list_all_iff)
  then have x: "c * 16 + j < length (p ! (r * 16 + i))"
    using assms grid_index_less[of c cols j 16] by simp
  have "list_all P (p ! (r * 16 + i))"
    using assms(2) row by (simp add: list_all_iff)
  then show ?thesis using x by (simp add: list_all_length)
qed

lemma patch_mean_between:
  assumes "\<And>i j. i < 16 \<Longrightarrow> j < 16 \<Longrightarrow> 0 \<le> p ! (r * 16 + i) ! (c * 16 + j) \<and> p ! (r * 16 + i) ! (c * 16 + j) \<le> 1"
  shows "0 \<le> patch_mean p r c \<and> patch_mean p r c \<le> 1"
proof -
  have inner: "\<And>i. i \<in> set [0..<16] \<Longrightarrow>
      0 \<le> sum_list (map (\<lambda>j. p ! (r * 16 + i) ! (c * 16 + j)) [0..<16])
      \<and> sum_list (map (\<lambda>j. p ! (r * 16 + i) ! (c * 16 + j)) [0..<16]) \<le> 16"
  proof -
    fix i :: nat assume "i \<in> set [0..<16]"
    then have i: "i < 16" by simp
    have "0 \<le> sum_list (map (\<lambda>j. p ! (r * 16 + i) ! (c * 16 + j)) [0..<16])
      \<and> sum_list (map (\<lambda>j. p ! (r * 16 + i) ! (c * 16 + j)) [0..<16]) \<le> real (length [0..<16::nat]) * 1"
      by (rule sum_list_between) (use assms i in simp)
    then show "0 \<le> sum_list (map (\<lambda>j. p ! (r * 16 + i) ! (c * 16 + j)) [0..<16])
      \<and> sum_list (map (\<lambda>j. p ! (r * 16 + i) ! (c * 16 + j)) [0..<16]) \<le> 16"
      by simp
  qed
  have "0 \<le> sum_list (map (\<lambda>i. sum_list (map (\<lambda>j. p ! (r * 16 + i) ! (c * 16 + j)) [0..<16])) [0..<16])
      \<and> sum_list (map (\<lambda>i. sum_list (map (\<lambda>j. p ! (r * 16 + i) ! (c * 16 + j)) [0..<16])) [0..<16])
          \<le> real (length [0..<16::nat]) * 16"
    by (rule sum_list_between) (rule inner)
  then show ?thesis by (simp add: patch_mean_def)
qed

lemma patch_mean_uniform:
  assumes "\<And>i j. i < 16 \<Longrightarrow> j < 16 \<Longrightarrow> p ! (r * 16 + i) ! (c * 16 + j) = v"
  shows "patch_mean p r c = v"
proof -
  have inner: "\<And>i. i \<in> set [0..<16] \<Longrightarrow>
      sum_list (map (\<lambda>j. p ! (r * 16 + i) ! (c * 16 + j)) [0..<16]) = 16 * v"
  proof -
    fix i :: nat assume "i \<in> set [0..<16]"
    then have i: "i < 16" by simp
    have "sum_list (map (\<lambda>j. p ! (r * 16 + i) ! (c * 16 + j)) [0..<16]) = real (length [0..<16::nat]) * v"
      by (rule sum_list_const) (use assms i in simp)
    then show "sum_list (map (\<lambda>j. p ! (r * 16 + i) ! (c * 16 + j)) [0..<16]) = 16 * v" by simp
  qed
  have "sum_list (map (\<lambda>i. sum_list (map (\<lambda>j. p ! (r * 16 + i) ! (c * 16 + j)) [0..<16])) [0..<16])
      = real (length [0..<16::nat]) * (16 * v)"
    by (rule sum_list_const) (rule inner)
  then show ?thesis by (simp add: patch_mean_def)
qed

subsection \<open>Normalisation\<close>

lemma shape3_raster:
  assumes "raster_shape a H W C" "0 < H" "0 < W"
  shows "shape3 a = (H, W, C)"
proof -
  obtain row0 rest where a: "a = row0 # rest"
    using assms by (cases a) (auto simp: raster_shape_def)
  have row0: "length row0 = W" "list_all (\<lambda>px. length px = C) row0"
    using assms(1) by (simp_all add: a raster_shape_def)
  then obtain px0 more where r: "row0 = px0 # more"
    using assms(3) by (cases row0) auto
  have "length px0 = C" using row0(2) by (simp add: r)
  then show ?thesis using assms(1) row0(1) by (simp add: shape3_def a r raster_shape_def)
qed

lemma raster_row:
  assumes "raster_shape a H W C" "y < H"
  shows "length (a ! y) = W \<and> list_all (\<lambda>px. length px = C) (a ! y)"
proof -
  have "a ! y \<in> set a" using assms by (simp add: raster_shape_def)
  then show ?thesis using assms(1) by (simp add: raster_shape_def list_all_iff)
qed

lemma raster_pixel:
  assumes "raster_shape a H W C" "y < H" "x < W"
  shows "length (a ! y ! x) = C"
  using raster_row[OF assms(1,2)] assms(3) by (simp add: list_all_length)

lemma raster_shape_map:
  assumes "raster_shape a H W C" "\<And>px. length px = C \<Longrightarrow> length (f px) = D"
  shows "raster_shape (map (map f) a) H W D"
  using assms by (auto simp: raster_shape_def list_all_iff)

lemma normalize_image_spec:
  assumes "raster_shape a H W 3" "0 < H" "0 < W"
  shows "\<exists>t. normalize_image a = Inr [t] \<and> length t = 3
           \<and> (\<forall>c<3. length (t ! c) = H
                \<and> (\<forall>y<H. length (t ! c ! y) = W
                     \<and> (\<forall>x<W. t ! c ! y ! x
                             = (a ! y ! x ! c / 255 - IMAGENET_MEAN ! c) / IMAGENET_STD ! c)))"
proof -
  let ?s = "scale_255 a"
  let ?f = "\<lambda>px. map (\<lambda>c. (px ! c - IMAGENET_MEAN ! c) / IMAGENET_STD ! c) [0..<3]"
  let ?n = "map (map ?f) ?s"
  let ?t = "map (\<lambda>c. map (\<lambda>y. map (\<lambda>x. ?n ! y ! x ! c) [0..<W]) [0..<H]) [0..<3]"
  have ss: "raster_shape ?s H W 3"
    unfolding scale_255_def by (rule raster_shape_map[OF assms(1)]) simp
  have sh: "shape3 ?s = (H, W, 3)"
    using ss assms(2,3) by (rule shape3_raster)
  have nb: "normalize_bands ?s = Inr ?n"
    by (simp add: normalize_bands_def sh)
  have ns: "raster_shape ?n H W 3"
    by (rule raster_shape_map[OF ss]) simp
  have nsh: "shape3 ?n = (H, W, 3)"
    using ns assms(2,3) by (rule shape3_raster)
  have run: "normalize_image a = Inr [?t]"
    by (simp add: normalize_image_def nb and_then_def newaxis_def transpose_201_def nsh)
  have val: "\<And>c y x. c < 3 \<Longrightarrow> y < H \<Longrightarrow> x < W \<Longrightarrow>
      ?n ! y ! x ! c = (a ! y ! x ! c / 255 - IMAGENET_MEAN ! c) / IMAGENET_STD ! c"
  proof -
    fix c y x :: nat assume c: "c < 3" and y: "y < H" and x: "x < W"
    have la: "length a = H" using assms(1) by (simp add: raster_shape_def)
    have lr: "length (a ! y) = W" using raster_row[OF assms(1) y] by simp
    have lp: "length (a ! y ! x) = 3" using raster_pixel[OF assms(1) y x] .
    show "?n ! y ! x ! c = (a ! y ! x ! c / 255 - IMAGENET_MEAN ! c) / IMAGENET_STD ! c"
      using c y x la lr lp by (simp add: scale_255_def)
  qed
  have "length ?t = 3
        \<and> (\<forall>c<3. length (?t ! c) = H
                \<and> (\<forall>y<H. length (?t ! c ! y) = W
                     \<and> (\<forall>x<W. ?t ! c ! y ! x
                             = (a ! y ! x ! c / 255 - IMAGENET_MEAN ! c) / IMAGENET_STD ! c)))"
    using val by simp
  with run show ?thesis by blast
qed

subsection \<open>One image, and the loop\<close>

lemma geometry_mask_nat:
  assumes "0 < h"
  shows "resize_mask_geometry (int w, int h) IMAGE_SIZE PATCH_SIZE
           = Inr \<lparr>h_patches = 48, w_patches = int ((w * 768) div (h * 16)),
                  target_size = (768, int (((w * 768) div (h * 16)) * 16))\<rparr>"
proof -
  have q: "py_int (real_of_int (int w * 768) / real_of_int (int h * 16)) = (int w * 768) div (int h * 16)"
    using assms by (intro py_int_quotient) simp_all
  have r: "py_int (real_of_int 768 / real_of_int 16) = 48"
    by (simp add: py_int_def)
  show ?thesis
    using assms q r
    by (simp add: resize_mask_geometry_def and_then_def py_truediv_def
        IMAGE_SIZE_def PATCH_SIZE_def Let_def zdiv_int)
qed

lemma geometry_image_nat:
  assumes "0 < h"
  shows "preprocess_image_geometry (int w, int h) IMAGE_SIZE PATCH_SIZE
           = Inr \<lparr>h_patches = 48, w_patches = int ((w * 768) div (h * 16)),
                  target_size = (768, int (((w * 768) div (h * 16)) * 16))\<rparr>"
proof -
  have q: "py_int (real_of_int (int w * 768) / real_of_int (int h * 16)) = (int w * 768) div (int h * 16)"
    using assms by (intro py_int_quotient) simp_all
  show ?thesis
    using assms q
    by (simp add: preprocess_image_geometry_def and_then_def py_floordiv_def py_truediv_def
        IMAGE_SIZE_def PATCH_SIZE_def Let_def zdiv_int)
qed

lemma geometry_mask_zero_height:
  "resize_mask_geometry (int w, 0) IMAGE_SIZE PATCH_SIZE = Inl ZeroDivisionError"
  by (simp add: resize_mask_geometry_def and_then_def py_truediv_def IMAGE_SIZE_def PATCH_SIZE_def)

lemma nat_int_times [simp]: "nat (int a * 16) = a * 16"
  by (simp add: nat_mult_distrib)

lemma tf_resize_shape:
  assumes "resamplers_ok env" and "tf_resize env img (h, w) = Inr r"
  shows "img_mode r = img_mode img"
    and "raster_shape (img_data r) (nat h) (nat w) (getbands (img_mode img))"
  using assms unfolding resamplers_ok_def by blast+

lemma pil_resize_shape:
  assumes "resamplers_ok env" and "pil_resize env img (w, h) = Inr r"
  shows "img_mode r = img_mode img"
    and "raster_shape (img_data r) (nat h) (nat w) (getbands (img_mode img))"
  using assms unfolding resamplers_ok_def by blast+

lemma getbands_L [simp]: "getbands ''L'' = 1"
  by (simp add: getbands_def)

lemma getbands_RGB [simp]: "getbands ''RGB'' = 3"
  by (simp add: getbands_def)

lemma resize_mask_shape:
  assumes ok: "resamplers_ok env" and sz: "img_size m = (w, h)" and md: "img_mode m = ''L''"
    and run: "resize_mask env m IMAGE_SIZE PATCH_SIZE = Inr mt"
  shows "0 < h \<and> (\<exists>pl. mt = [pl] \<and> plane_shape pl 768 (((w * 768) div (h * 16)) * 16))"
proof -
  have h: "0 < h"
  proof (rule ccontr)
    assume "\<not> 0 < h"
    then have "h = 0" by simp
    then show False
      using run by (simp add: resize_mask_def sz geometry_mask_zero_height and_then_def)
  qed
  let ?W = "((w * 768) div (h * 16)) * 16"
  obtain r where r: "tf_resize env m (768, int ?W) = Inr r" and mt: "mt = to_tensor r"
    using run by (auto simp: resize_mask_def sz geometry_mask_nat[OF h] and_then_def split: sum.splits)
  have rm: "img_mode r = ''L''"
    using tf_resize_shape(1)[OF ok r] md by simp
  have rs: "raster_shape (img_data r) 768 ?W 1"
    using tf_resize_shape(2)[OF ok r] md by simp
  have tt: "to_tensor r = [map (map (\<lambda>px. px ! 0 / 255)) (img_data r)]"
    by (simp add: to_tensor_def rm)
  have "plane_shape (map (map (\<lambda>px. px ! 0 / 255)) (img_data r)) 768 ?W"
    using rs by (auto simp: raster_shape_def plane_shape_def list_all_iff)
  with h mt tt show ?thesis by simp
qed

lemma mask_quantized_length:
  fixes nc :: nat
  assumes "plane_shape pl 768 (nc * 16)" and "mask_quantized [pl] = Inr mq"
  shows "0 < nc \<and> length mq = 48 * nc"
proof -
  have nc: "0 < nc"
  proof (rule ccontr)
    assume "\<not> 0 < nc"
    then have z: "nc = 0" by simp
    have "plane_width pl = 0"
      using assms(1) plane_width_shape[of pl 768 0] by (simp add: z)
    then have "patch_quant_filter [pl] = Inl RuntimeError"
      by (simp add: patch_quant_filter_def conv2d_def patch_quant_weight_def PATCH_SIZE_def Let_def)
    then show False using assms(2) by (simp add: mask_quantized_def and_then_def)
  qed
  have "plane_shape pl (48 * 16) (nc * 16)" using assms(1) by simp
  then have "mask_quantized [pl] = Inr (concat (map (\<lambda>r. map (patch_mean pl r) [0..<nc]) [0..<48]))"
    using nc by (intro mask_quantized_eq) simp_all
  then have "mq = concat (map (\<lambda>r. map (patch_mean pl r) [0..<nc]) [0..<48])"
    using assms(2) by simp
  then show ?thesis using nc by (simp add: length_concat_grid)
qed

lemma preprocess_image_shape:
  fixes w h :: nat
  assumes ok: "resamplers_ok env" and sz: "img_size im = (w, h)" and md: "img_mode im = ''RGB''"
    and pos: "0 < (w * 768) div (h * 16)"
    and run: "preprocess_image env im IMAGE_SIZE PATCH_SIZE = Inr t"
  shows "tensor_shape t (48 * 16) (((w * 768) div (h * 16)) * 16)"
proof -
  have h: "0 < h" using pos by (cases h) simp_all
  let ?W = "((w * 768) div (h * 16)) * 16"
  obtain r where r: "pil_resize env im (int ?W, 768) = Inr r"
      and t: "normalize_image (img_data r) = Inr t"
    using run by (auto simp: preprocess_image_def sz geometry_image_nat[OF h] and_then_def split: sum.splits)
  have rs: "raster_shape (img_data r) 768 ?W 3"
    using pil_resize_shape(2)[OF ok r] md by simp
  have W: "0 < ?W" using pos by simp
  obtain t' where t': "normalize_image (img_data r) = Inr [t']" "length t' = 3"
     "\<forall>c<3. length (t' ! c) = 768 \<and> (\<forall>y<768. length (t' ! c ! y) = ?W
         \<and> (\<forall>x< ?W. t' ! c ! y ! x
               = (img_data r ! y ! x ! c / 255 - IMAGENET_MEAN ! c) / IMAGENET_STD ! c))"
    using normalize_image_spec[OF rs _ W] by auto
  have pls: "list_all (\<lambda>p. plane_shape p 768 ?W) t'"
    unfolding list_all_length plane_shape_def using t'(2,3) by simp
  have "t = [t']" using t t'(1) by simp
  then show ?thesis using pls t'(2) by (simp add: tensor_shape_def)
qed

lemma process_image_counts:
  assumes ok: "resamplers_ok env" and ex: "extractor_ok env"
    and run: "process_image env img = Inr (mq, feats)"
  shows "length mq = patch_count img \<and> length (arr_rows feats) = patch_count img"
proof -
  obtain w h where sz: "img_size img = (w, h)" by (cases "img_size img")
  let ?nc = "(w * 768) div (h * 16)"
  obtain mt t out where
      1: "resize_mask env (split_last img) IMAGE_SIZE PATCH_SIZE = Inr mt"
    and 2: "mask_quantized mt = Inr mq"
    and 3: "preprocess_image env (convert_RGB img) IMAGE_SIZE PATCH_SIZE = Inr t"
    and 4: "ort_run env t = Inr out"
    and 5: "squeeze0 out = Inr feats"
    using run by (auto simp: process_image_def Let_def and_then_def split: sum.splits)
  have msz: "img_size (split_last img) = (w, h)" "img_mode (split_last img) = ''L''"
    by (simp_all add: split_last_def sz)
  obtain pl where h: "0 < h" and pl: "mt = [pl]" "plane_shape pl 768 (?nc * 16)"
    using resize_mask_shape[OF ok msz 1] by auto
  have nc: "0 < ?nc" and lmq: "length mq = 48 * ?nc"
    using mask_quantized_length[OF pl(2)] 2 pl(1) by auto
  have rsz: "img_size (convert_RGB img) = (w, h)" "img_mode (convert_RGB img) = ''RGB''"
    by (simp_all add: convert_RGB_def sz)
  have ts: "tensor_shape t (48 * 16) (?nc * 16)"
    using preprocess_image_shape[OF ok rsz nc 3] .
  obtain a where a: "out = [a]" "length (arr_rows a) = 48 * ?nc"
    using ex ts 4 unfolding extractor_ok_def by blast
  have "feats = a" using 5 a(1) by (simp add: squeeze0_def)
  then show ?thesis using lmq a(2) by (simp add: patch_count_def sz)
qed

lemma aligner_loop_append:
  "aligner_loop env (as @ bs) acc = and_then (aligner_loop env as acc) (aligner_loop env bs)"
proof (induction env as acc rule: aligner_loop.induct)
  case (1 env acc)
  then show ?case by (simp add: and_then_def)
next
  case (2 env img rest xs ys)
  then show ?case
    by (cases "process_image env img") (auto simp: and_then_def)
qed

lemma aligner_loop_counts:
  assumes ok: "resamplers_ok env" and ex: "extractor_ok env"
    and run: "aligner_loop env imgs (xs, ys) = Inr (xs', ys')"
  shows "length (concat (map arr_rows xs'))
           = length (concat (map arr_rows xs))
             + sum_list (map patch_count (filter (\<lambda>i. img_mode i = ''RGBA'') imgs))
       \<and> length (concat ys')
           = length (concat ys)
             + sum_list (map patch_count (filter (\<lambda>i. img_mode i = ''RGBA'') imgs))"
  using run
proof (induction imgs arbitrary: xs ys)
  case Nil
  then show ?case by simp
next
  case (Cons img rest)
  show ?case
  proof (cases "img_mode img = ''RGBA''")
    case False
    then have "aligner_loop env rest (xs, ys) = Inr (xs', ys')"
      using Cons.prems by simp
    then show ?thesis using Cons.IH False by simp
  next
    case True
    then obtain mq feats where p: "process_image env img = Inr (mq, feats)"
        and rest: "aligner_loop env rest (xs @ [feats], ys @ [mq]) = Inr (xs', ys')"
      using Cons.prems by (auto simp: and_then_def split: sum.splits)
    have c: "length mq = patch_count img" "length (arr_rows feats) = patch_count img"
      using process_image_counts[OF ok ex p] by simp_all
    show ?thesis
      using Cons.IH[OF rest] True c by simp
  qed
qed

subsection \<open>The sample inputs honour the contracts\<close>

lemma resamplers_ok_sample: "resamplers_ok sample_env"
  by (auto simp: resamplers_ok_def sample_env_def raster_shape_def list_all_iff split: if_splits)

lemma extractor_ok_sample: "extractor_ok sample_env"
  unfolding extractor_ok_def
proof (intro allI impI)
  fix t :: "real list list list list" and nr nc :: nat and out
  assume a: "tensor_shape t (nr * 16) (nc * 16) \<and> ort_run sample_env t = Inr out"
  then obtain planes where t: "t = [planes]" and lp: "length planes = 3"
      and ps: "list_all (\<lambda>p. plane_shape p (nr * 16) (nc * 16)) planes"
    by (cases t) (auto simp: tensor_shape_def)
  obtain p rest where pl: "planes = p # rest" using lp by (cases planes) auto
  have p: "plane_shape p (nr * 16) (nc * 16)" using ps pl by simp
  have out: "out = [\<lparr>arr_ncols = 2,
                     arr_rows = replicate ((length p div 16) * (plane_width p div 16)) [0, 0]\<rparr>]"
    using a by (simp add: sample_env_def t pl)
  have lenp: "length p = nr * 16" using p by (simp add: plane_shape_def)
  have n: "(length p div 16) * (plane_width p div 16) = nr * nc"
  proof (cases "nr = 0")
    case True
    then show ?thesis using lenp by simp
  next
    case False
    then have "plane_width p = nc * 16" using plane_width_shape[OF p] by simp
    then show ?thesis using lenp by simp
  qed
  show "\<exists>a. out = [a] \<and> length (arr_rows a) = nr * nc
             \<and> list_all (\<lambda>v. length v = arr_ncols a) (arr_rows a)"
    using out n by (simp add: list_all_iff)
qed

lemma process_image_sample:
  "\<exists>mq feats. process_image sample_env sample_rgba = Inr (mq, feats)"
proof -
  let ?pl = "replicate 768 (replicate 768 (1::real))"
  have gm: "resize_mask_geometry (int 1, int 1) IMAGE_SIZE PATCH_SIZE
           = Inr \<lparr>h_patches = 48, w_patches = 48, target_size = (768, 768)\<rparr>"
    using geometry_mask_nat[of 1 1] by simp
  have gi: "preprocess_image_geometry (int 1, int 1) IMAGE_SIZE PATCH_SIZE
           = Inr \<lparr>h_patches = 48, w_patches = 48, target_size = (768, 768)\<rparr>"
    using geometry_image_nat[of 1 1] by simp
  have rm: "resize_mask sample_env (split_last sample_rgba) IMAGE_SIZE PATCH_SIZE = Inr [?pl]"
    using gm by (simp add: resize_mask_def split_last_def sample_rgba_def and_then_def
        sample_env_def to_tensor_def)
  have "plane_shape ?pl (48 * 16) (48 * 16)"
    by (simp add: plane_shape_def list_all_iff)
  then have mq: "mask_quantized [?pl]
        = Inr (concat (map (\<lambda>r. map (patch_mean ?pl r) [0..<48]) [0..<48]))"
    by (intro mask_quantized_eq) simp_all
  have pi: "preprocess_image sample_env (convert_RGB sample_rgba) IMAGE_SIZE PATCH_SIZE
        = normalize_image (replicate 768 (replicate 768 (replicate 3 0)))"
    using gi by (simp add: preprocess_image_def convert_RGB_def sample_rgba_def and_then_def
        sample_env_def)
  have "raster_shape (replicate 768 (replicate 768 (replicate 3 (0::real)))) 768 768 3"
    by (simp add: raster_shape_def list_all_iff)
  then obtain t' where t': "normalize_image (replicate 768 (replicate 768 (replicate 3 0))) = Inr [t']"
      "length t' = 3"
    using normalize_image_spec[of "replicate 768 (replicate 768 (replicate 3 0))" 768 768] by auto
  obtain p rest where pr: "t' = p # rest" using t'(2) by (cases t') auto
  have run: "ort_run sample_env [t'] = Inr [\<lparr>arr_ncols = 2,
                     arr_rows = replicate ((length p div 16) * (plane_width p div 16)) [0, 0]\<rparr>]"
    by (simp add: sample_env_def pr)
  show ?thesis
    by (simp add: process_image_def Let_def rm mq pi t'(1) run and_then_def squeeze0_def)
qed

subsection \<open>Filter, fit and export\<close>

lemma mask_select_all:
  "length xs = length idx \<Longrightarrow> list_all (\<lambda>b. b) idx \<Longrightarrow> mask_select xs idx = xs"
proof (induction xs arbitrary: idx)
  case Nil
  then show ?case by (simp add: mask_select_def)
next
  case (Cons x xs)
  then obtain b bs where "idx = b # bs" by (cases idx) auto
  then show ?case using Cons by (simp add: mask_select_def)
qed

lemma mask_select_none:
  "list_all (\<lambda>b. \<not> b) idx \<Longrightarrow> mask_select xs idx = []"
proof (induction xs arbitrary: idx)
  case Nil
  then show ?case by (simp add: mask_select_def)
next
  case (Cons x xs)
  then show ?case by (cases idx) (simp_all add: mask_select_def)
qed

lemma concatenated_rows:
  "np_concatenate_rows xs = Inr X \<Longrightarrow> arr_rows X = concat (map arr_rows xs) \<and> xs \<noteq> []"
  by (auto simp: np_concatenate_rows_def split: list.splits if_splits)

lemma train_and_export_clean:
  assumes "np_concatenate_rows xs = Inr X" and "ys \<noteq> []"
    and "length (concat ys) = length (arr_rows X)"
    and "list_all (\<lambda>y. y < 0.01 \<or> y > 0.99) (concat ys)"
  shows "train_and_export env xs ys
           = and_then (fit env X (fit_targets (concat ys))) (\<lambda>clf. export_classifier env clf X)"
proof -
  have cat: "np_concatenate_flat ys = Inr (concat ys)"
    using assms(2) by (simp add: np_concatenate_flat_def split: list.splits)
  have all: "list_all (\<lambda>b. b) (clean_idx (concat ys))"
    using assms(4) by (simp add: clean_idx_def list_all_iff)
  have len: "length (clean_idx (concat ys)) = length (arr_rows X)"
    using assms(3) by (simp add: clean_idx_def)
  have sx: "np_mask_rows X (clean_idx (concat ys)) = Inr X"
    using len mask_select_all[of "arr_rows X" "clean_idx (concat ys)"] all
    by (simp add: np_mask_rows_def)
  have sy: "mask_select (concat ys) (clean_idx (concat ys)) = concat ys"
    using all by (intro mask_select_all) (simp_all add: clean_idx_def)
  show ?thesis
    by (simp add: train_and_export_def assms(1) cat and_then_def Let_def sx sy)
qed

lemma train_and_export_ambiguous:
  assumes "np_concatenate_rows xs = Inr X" and "ys \<noteq> []"
    and "length (concat ys) = length (arr_rows X)"
    and "list_all (\<lambda>y. 0.01 \<le> y \<and> y \<le> 0.99) (concat ys)"
  shows "train_and_export env xs ys
           = and_then (fit env (X\<lparr>arr_rows := []\<rparr>) [])
                (\<lambda>clf. export_classifier env clf (X\<lparr>arr_rows := []\<rparr>))"
proof -
  have cat: "np_concatenate_flat ys = Inr (concat ys)"
    using assms(2) by (simp add: np_concatenate_flat_def split: list.splits)
  have none: "list_all (\<lambda>b. \<not> b) (clean_idx (concat ys))"
    using assms(4) unfolding clean_idx_def list_all_iff by fastforce
  have len: "length (clean_idx (concat ys)) = length (arr_rows X)"
    using assms(3) by (simp add: clean_idx_def)
  have sx: "np_mask_rows X (clean_idx (concat ys)) = Inr (X\<lparr>arr_rows := []\<rparr>)"
    using len mask_select_none[OF none, of "arr_rows X"] by (simp add: np_mask_rows_def)
  have sy: "mask_select (concat ys) (clean_idx (concat ys)) = []"
    using none by (rule mask_select_none)
  show ?thesis
    by (simp add: train_and_export_def assms(1) cat and_then_def Let_def sx sy fit_targets_def)
qed

lemma aligner_loop_no_rgba:
  "filter (\<lambda>i. img_mode i = ''RGBA'') imgs = [] \<Longrightarrow> aligner_loop env imgs acc = Inr acc"
  by (induction env imgs acc rule: aligner_loop.induct) (auto split: if_splits)

lemma training_body_no_rgba:
  "filter (\<lambda>i. img_mode i = ''RGBA'') imgs = [] \<Longrightarrow> training_body env imgs = Inl ValueError"
  by (simp add: training_body_def aligner_loop_no_rgba and_then_def train_and_export_def
      np_concatenate_rows_def)

lemma aligner_loop_filter:
  "aligner_loop env imgs acc = aligner_loop env (filter (\<lambda>i. img_mode i = ''RGBA'') imgs) acc"
  by (induction env imgs acc rule: aligner_loop.induct) (auto simp: and_then_def split: sum.splits)

lemma process_image_sample_value:
  "process_image sample_env sample_rgba
     = Inr (replicate 2304 1, \<lparr>arr_ncols = 2, arr_rows = replicate 2304 [0, 0]\<rparr>)"
proof -
  let ?pl = "replicate 768 (replicate 768 (1::real))"
  let ?mq = "concat (map (\<lambda>r. map (patch_mean ?pl r) [0..<48]) [0..<48])"
  have gm: "resize_mask_geometry (int 1, int 1) IMAGE_SIZE PATCH_SIZE
           = Inr \<lparr>h_patches = 48, w_patches = 48, target_size = (768, 768)\<rparr>"
    using geometry_mask_nat[of 1 1] by simp
  have gi: "preprocess_image_geometry (int 1, int 1) IMAGE_SIZE PATCH_SIZE
           = Inr \<lparr>h_patches = 48, w_patches = 48, target_size = (768, 768)\<rparr>"
    using geometry_image_nat[of 1 1] by simp
  have rm: "resize_mask sample_env (split_last sample_rgba) IMAGE_SIZE PATCH_SIZE = Inr [?pl]"
    using gm by (simp add: resize_mask_def split_last_def sample_rgba_def and_then_def
        sample_env_def to_tensor_def)
  have "plane_shape ?pl (48 * 16) (48 * 16)"
    by (simp add: plane_shape_def list_all_iff)
  then have mq: "mask_quantized [?pl] = Inr ?mq"
    by (intro mask_quantized_eq) simp_all
  have one: "\<And>r c. r < 48 \<Longrightarrow> c < 48 \<Longrightarrow> patch_mean ?pl r c = 1"
  proof (rule patch_mean_uniform)
    fix r c i j :: nat assume "r < 48" "c < 48" "i < 16" "j < 16"
    then have "r * 16 + i < 768" "c * 16 + j < 768" by simp_all
    then show "?pl ! (r * 16 + i) ! (c * 16 + j) = 1" by simp
  qed
  have "\<forall>v\<in>set ?mq. v = 1" using one by auto
  then have "replicate (length ?mq) 1 = ?mq" by (rule replicate_length_same)
  then have mqv: "?mq = replicate 2304 1" by (simp add: length_concat_grid)
  have pi: "preprocess_image sample_env (convert_RGB sample_rgba) IMAGE_SIZE PATCH_SIZE
        = normalize_image (replicate 768 (replicate 768 (replicate 3 0)))"
    using gi by (simp add: preprocess_image_def convert_RGB_def sample_rgba_def and_then_def
        sample_env_def)
  have "raster_shape (replicate 768 (replicate 768 (replicate 3 (0::real)))) 768 768 3"
    by (simp add: raster_shape_def list_all_iff)
  then obtain t' where t': "normalize_image (replicate 768 (replicate 768 (replicate 3 0))) = Inr [t']"
      "length t' = 3" "length (t' ! 0) = 768" "length (t' ! 0 ! 0) = 768"
    using normalize_image_spec[of "replicate 768 (replicate 768 (replicate 3 0))" 768 768] by auto
  obtain p rest where pr: "t' = p # rest" using t'(2) by (cases t') auto
  have lp: "length p = 768" using t'(3) by (simp add: pr)
  then obtain row more where p: "p = row # more" by (cases p) auto
  have "length row = 768" using t'(4) by (simp add: pr p)
  then have pw: "plane_width p = 768" by (simp add: plane_width_def p)
  have run: "ort_run sample_env [t'] = Inr [\<lparr>arr_ncols = 2, arr_rows = replicate 2304 [0, 0]\<rparr>]"
    by (simp add: sample_env_def pr lp pw)
  show ?thesis
    by (simp add: process_image_def Let_def rm mq mqv pi t'(1) run and_then_def squeeze0_def)
qed

lemma training_body_sample:
  "training_body sample_env [sample_rgba] = Inr sample_model"
proof -
  let ?X = "\<lparr>arr_ncols = 2, arr_rows = replicate 2304 [0, 0 :: real]\<rparr>"
  have m1: "img_mode sample_rgba = ''RGBA''" by (simp add: sample_rgba_def)
  have loop: "aligner_loop sample_env [sample_rgba] ([], []) = Inr ([?X], [replicate 2304 1])"
    by (simp add: process_image_sample_value and_then_def m1)
  have cat: "np_concatenate_rows [?X] = Inr ?X"
    by (simp add: np_concatenate_rows_def)
  have te: "train_and_export sample_env [?X] [replicate 2304 1]
      = and_then (fit sample_env ?X (fit_targets (concat [replicate 2304 1])))
          (\<lambda>clf. export_classifier sample_env clf ?X)"
    by (rule train_and_export_clean[OF cat]) (simp_all add: list_all_iff)
  have ne: "replicate 2304 [0, 0 :: real] \<noteq> []" by (simp add: replicate_empty)
  have ft: "\<And>y. fit sample_env ?X y = Inr \<lparr>coef = [0, 0], intercept = 0\<rparr>"
    using ne by (simp add: sample_env_def numeral_2_eq_2)
  have ex: "export_classifier sample_env \<lparr>coef = [0, 0], intercept = 0\<rparr> ?X = Inr sample_model"
    by (simp add: export_classifier_def export_request_def sample_env_def sample_model_def)
  have "training_body sample_env [sample_rgba] = train_and_export sample_env [?X] [replicate 2304 1]"
    unfolding training_body_def loop by (simp add: and_then_def)
  then show ?thesis
    by (simp add: te ft ex and_then_def)
qed

lemma training_body_sample_batch:
  "training_body sample_env [sample_rgba, sample_rgba, sample_rgba, sample_rgba] = Inr sample_model"
proof -
  let ?R = "replicate 2304 [0, 0 :: real]"
  let ?X = "\<lparr>arr_ncols = 2, arr_rows = ?R\<rparr>"
  let ?XX = "\<lparr>arr_ncols = 2, arr_rows = ?R @ ?R @ ?R @ ?R\<rparr>"
  let ?q = "replicate 2304 (1::real)"
  have m1: "img_mode sample_rgba = ''RGBA''" by (simp add: sample_rgba_def)
  have loop: "aligner_loop sample_env [sample_rgba, sample_rgba, sample_rgba, sample_rgba] ([], [])
                = Inr ([?X, ?X, ?X, ?X], [?q, ?q, ?q, ?q])"
    by (simp add: process_image_sample_value and_then_def m1)
  have cat: "np_concatenate_rows [?X, ?X, ?X, ?X] = Inr ?XX"
    by (simp add: np_concatenate_rows_def)
  have te: "train_and_export sample_env [?X, ?X, ?X, ?X] [?q, ?q, ?q, ?q]
      = and_then (fit sample_env ?XX (fit_targets (concat [?q, ?q, ?q, ?q])))
          (\<lambda>clf. export_classifier sample_env clf ?XX)"
    by (rule train_and_export_clean[OF cat]) (simp_all add: list_all_iff)
  have ft: "\<And>y. fit sample_env ?XX y = Inr \<lparr>coef = [0, 0], intercept = 0\<rparr>"
    by (simp add: sample_env_def numeral_2_eq_2)
  have ex: "export_classifier sample_env \<lparr>coef = [0, 0], intercept = 0\<rparr> ?XX = Inr sample_model"
    by (simp add: export_classifier_def export_request_def sample_env_def sample_model_def)
  have "training_body sample_env [sample_rgba, sample_rgba, sample_rgba, sample_rgba]
          = train_and_export sample_env [?X, ?X, ?X, ?X] [?q, ?q, ?q, ?q]"
    unfolding training_body_def loop by (simp add: and_then_def)
  then show ?thesis
    by (simp only: te ft ex and_then_def sum.case)
qed

section \<open>Claims\<close>

text \<open>
  C3. For an image and its mask of positive width \<open>w\<close> and height \<open>h\<close>, with the constants
  \<open>IMAGE_SIZE = 768\<close> and \<open>PATCH_SIZE = 16\<close>, the grid computed inside \<open>preprocess_image\<close>
  and the one computed inside \<open>resize_mask\<close> are the same: 48 rows and
  \<open>(w * 768) div (h * 16)\<close> columns. \<open>preprocess_image\<close> calls the image resampler for the
  size \<open>(cols * 16, 48 * 16)\<close>, width first, and \<open>resize_mask\<close> calls the mask resampler
  for \<open>(48 * 16, cols * 16)\<close>, height first: the same pixel dimensions, both multiples of
  the patch size. When the resamplers return what they are asked for, the two rasters
  have the same numbers of rows and columns.
\<close>

theorem C3_image_and_mask_geometry_agree:
  assumes "0 < w" and "0 < h"
    and "img_size img = (nat w, nat h)" and "img_size msk = (nat w, nat h)"
  shows "preprocess_image_geometry (w, h) IMAGE_SIZE PATCH_SIZE
           = Inr \<lparr>h_patches = 48, w_patches = (w * 768) div (h * 16),
                  target_size = (48 * 16, ((w * 768) div (h * 16)) * 16)\<rparr>
       \<and> resize_mask_geometry (w, h) IMAGE_SIZE PATCH_SIZE
           = preprocess_image_geometry (w, h) IMAGE_SIZE PATCH_SIZE
       \<and> preprocess_image env img IMAGE_SIZE PATCH_SIZE
           = and_then (pil_resize env img (((w * 768) div (h * 16)) * 16, 48 * 16))
               (\<lambda>resized_img. normalize_image (img_data resized_img))
       \<and> resize_mask env msk IMAGE_SIZE PATCH_SIZE
           = and_then (tf_resize env msk (48 * 16, ((w * 768) div (h * 16)) * 16))
               (\<lambda>r. Inr (to_tensor r))
       \<and> PATCH_SIZE dvd ((w * 768) div (h * 16)) * 16
       \<and> PATCH_SIZE dvd 48 * 16
       \<and> (resamplers_ok env \<longrightarrow>
            (\<forall>r m. pil_resize env img (((w * 768) div (h * 16)) * 16, 48 * 16) = Inr r
                 \<and> tf_resize env msk (48 * 16, ((w * 768) div (h * 16)) * 16) = Inr m
               \<longrightarrow> raster_shape (img_data r) (48 * 16) (nat (((w * 768) div (h * 16)) * 16))
                      (getbands (img_mode img))
                 \<and> raster_shape (img_data m) (48 * 16) (nat (((w * 768) div (h * 16)) * 16))
                      (getbands (img_mode msk))))"
proof -
  let ?W = "((w * 768) div (h * 16)) * 16"
  have gi: "preprocess_image_geometry (w, h) IMAGE_SIZE PATCH_SIZE
           = Inr \<lparr>h_patches = 48, w_patches = (w * 768) div (h * 16), target_size = (768, ?W)\<rparr>"
    using preprocess_image_geometry_pos[OF assms(1,2)] .
  have gm: "resize_mask_geometry (w, h) IMAGE_SIZE PATCH_SIZE
           = Inr \<lparr>h_patches = 48, w_patches = (w * 768) div (h * 16), target_size = (768, ?W)\<rparr>"
    using resize_mask_geometry_pos[OF assms(1,2)] .
  have pi: "preprocess_image env img IMAGE_SIZE PATCH_SIZE
           = and_then (pil_resize env img (?W, 768))
               (\<lambda>resized_img. normalize_image (img_data resized_img))"
    using assms(1,2) by (simp add: preprocess_image_def assms(3) gi and_then_def)
  have rm: "resize_mask env msk IMAGE_SIZE PATCH_SIZE
           = and_then (tf_resize env msk (768, ?W)) (\<lambda>r. Inr (to_tensor r))"
    using assms(1,2) by (simp add: resize_mask_def assms(4) gm and_then_def)
  have dv: "PATCH_SIZE dvd ?W" "PATCH_SIZE dvd 48 * 16"
    by (simp_all add: PATCH_SIZE_def)
  have shapes: "resamplers_ok env \<longrightarrow>
            (\<forall>r m. pil_resize env img (?W, 48 * 16) = Inr r \<and> tf_resize env msk (48 * 16, ?W) = Inr m
               \<longrightarrow> raster_shape (img_data r) (48 * 16) (nat ?W) (getbands (img_mode img))
                 \<and> raster_shape (img_data m) (48 * 16) (nat ?W) (getbands (img_mode msk)))"
  proof (intro impI allI)
    fix r m
    assume ok: "resamplers_ok env"
      and c: "pil_resize env img (?W, 48 * 16) = Inr r \<and> tf_resize env msk (48 * 16, ?W) = Inr m"
    have "raster_shape (img_data r) (nat (48 * 16)) (nat ?W) (getbands (img_mode img))"
      using pil_resize_shape(2)[OF ok] c by blast
    moreover have "raster_shape (img_data m) (nat (48 * 16)) (nat ?W) (getbands (img_mode msk))"
      using tf_resize_shape(2)[OF ok] c by blast
    ultimately show "raster_shape (img_data r) (48 * 16) (nat ?W) (getbands (img_mode img))
                 \<and> raster_shape (img_data m) (48 * 16) (nat ?W) (getbands (img_mode msk))"
      by simp
  qed
  from gi gm pi rm dv shapes show ?thesis by simp
qed

theorem C3_image_and_mask_geometry_agree_witness:
  "preprocess_image_geometry (1, 1) IMAGE_SIZE PATCH_SIZE
       = Inr \<lparr>h_patches = 48, w_patches = 48, target_size = (768, 768)\<rparr>
   \<and> resize_mask_geometry (1, 1) IMAGE_SIZE PATCH_SIZE
       = Inr \<lparr>h_patches = 48, w_patches = 48, target_size = (768, 768)\<rparr>
   \<and> preprocess_image sample_env (convert_RGB sample_rgba) IMAGE_SIZE PATCH_SIZE
       = and_then (pil_resize sample_env (convert_RGB sample_rgba) (768, 768))
           (\<lambda>resized_img. normalize_image (img_data resized_img))
   \<and> resize_mask sample_env (split_last sample_rgba) IMAGE_SIZE PATCH_SIZE
       = and_then (tf_resize sample_env (split_last sample_rgba) (768, 768))
           (\<lambda>r. Inr (to_tensor r))
   \<and> resamplers_ok sample_env
   \<and> (\<exists>r m. pil_resize sample_env (convert_RGB sample_rgba) (768, 768) = Inr r
          \<and> tf_resize sample_env (split_last sample_rgba) (768, 768) = Inr m
          \<and> raster_shape (img_data r) 768 768 3
          \<and> raster_shape (img_data m) 768 768 1)"
proof -
  let ?img = "convert_RGB sample_rgba" and ?msk = "split_last sample_rgba"
  let ?r = "\<lparr>img_mode = ''RGB'', img_size = (768, 768),
             img_data = replicate 768 (replicate 768 (replicate 3 (0::real)))\<rparr>"
  let ?m = "\<lparr>img_mode = ''L'', img_size = (768, 768),
             img_data = replicate 768 (replicate 768 (replicate 1 (255::real)))\<rparr>"
  have si: "img_size ?img = (nat 1, nat 1)" and sm: "img_size ?msk = (nat 1, nat 1)"
    by (simp_all add: convert_RGB_def split_last_def sample_rgba_def)
  have mi: "img_mode ?img = ''RGB''" and mm: "img_mode ?msk = ''L''"
    by (simp_all add: convert_RGB_def split_last_def)
  have ri: "pil_resize sample_env ?img (768, 768) = Inr ?r"
    by (simp add: sample_env_def mi)
  have rm: "tf_resize sample_env ?msk (768, 768) = Inr ?m"
    by (simp add: sample_env_def mm)
  note c3 = C3_image_and_mask_geometry_agree[of 1 1 ?img ?msk sample_env, OF _ _ si sm]
  have geo: "preprocess_image_geometry (1, 1) IMAGE_SIZE PATCH_SIZE
       = Inr \<lparr>h_patches = 48, w_patches = 48, target_size = (768, 768)\<rparr>
     \<and> resize_mask_geometry (1, 1) IMAGE_SIZE PATCH_SIZE
       = Inr \<lparr>h_patches = 48, w_patches = 48, target_size = (768, 768)\<rparr>
     \<and> preprocess_image sample_env ?img IMAGE_SIZE PATCH_SIZE
       = and_then (pil_resize sample_env ?img (768, 768))
           (\<lambda>resized_img. normalize_image (img_data resized_img))
     \<and> resize_mask sample_env ?msk IMAGE_SIZE PATCH_SIZE
       = and_then (tf_resize sample_env ?msk (768, 768)) (\<lambda>r. Inr (to_tensor r))"
    using c3 by simp
  have "raster_shape (img_data ?r) 768 768 3 \<and> raster_shape (img_data ?m) 768 768 1"
    using c3 resamplers_ok_sample ri rm mi mm by simp
  with geo resamplers_ok_sample ri rm show ?thesis by blast
qed

text \<open>
  C4. The Clean Subset of a soft-label table \<open>ys\<close> consists of exactly the positions \<open>i\<close>
  with \<open>ys ! i < 0.01\<close> or \<open>ys ! i > 0.99\<close>, kept in order; a label equal to 0.01 or to
  0.99, and every label in the closed interval between them, is dropped.
\<close>

theorem C4_clean_subset_exact:
  "set (mask_positions (clean_idx ys)) = {i. i < length ys \<and> (ys ! i < 0.01 \<or> ys ! i > 0.99)}
   \<and> mask_select ys (clean_idx ys) = map (\<lambda>i. ys ! i) (mask_positions (clean_idx ys))
   \<and> mask_select ys (clean_idx ys) = filter (\<lambda>y. y < 0.01 \<or> y > 0.99) ys
   \<and> {i. i < length ys \<and> 0.01 \<le> ys ! i \<and> ys ! i \<le> 0.99} \<inter> set (mask_positions (clean_idx ys)) = {}
   \<and> mask_select [0.01, 0.99 :: real] (clean_idx [0.01, 0.99]) = []"
proof -
  have a: "set (mask_positions (clean_idx ys))
           = {i. i < length ys \<and> (ys ! i < 0.01 \<or> ys ! i > 0.99)}"
    by (auto simp: mask_positions_def clean_idx_def)
  have b: "mask_select ys (clean_idx ys) = map (\<lambda>i. ys ! i) (mask_positions (clean_idx ys))"
    by (rule mask_select_nth) (simp add: clean_idx_def)
  have c: "mask_select ys (clean_idx ys) = filter (\<lambda>y. y < 0.01 \<or> y > 0.99) ys"
    by (induction ys) (simp_all add: mask_select_def clean_idx_def)
  have d: "{i. i < length ys \<and> 0.01 \<le> ys ! i \<and> ys ! i \<le> 0.99}
             \<inter> set (mask_positions (clean_idx ys)) = {}"
    unfolding a by auto
  have e: "mask_select [0.01, 0.99 :: real] (clean_idx [0.01, 0.99]) = []"
    by (simp add: mask_select_def clean_idx_def)
  from a b c d e show ?thesis by blast
qed

text \<open>
  C5. For a mask tensor \<open>[1, rows * 16, cols * 16]\<close> with values in \<open>[0, 1]\<close> (at least one
  patch in each direction), the quantizer returns \<open>rows * cols\<close> labels in row-major patch
  order; the label of the patch \<open>(r, c)\<close> is the arithmetic mean of its 256 pixels, lies
  in \<open>[0, 1]\<close>, and is exactly 1 (exactly 0) when all its pixels are 1 (are 0). The
  arithmetic is exact, so the mean is met with no tolerance.
\<close>

theorem C5_label_quantizer:
  fixes rows cols :: nat
  assumes "plane_shape p (rows * 16) (cols * 16)" and "0 < rows" and "0 < cols"
    and "list_all (list_all (\<lambda>v. 0 \<le> v \<and> v \<le> 1)) p"
  shows "\<exists>q. mask_quantized [p] = Inr q
           \<and> length q = rows * cols
           \<and> (\<forall>r<rows. \<forall>c<cols.
                 q ! (r * cols + c) = patch_mean p r c
               \<and> 0 \<le> q ! (r * cols + c) \<and> q ! (r * cols + c) \<le> 1
               \<and> ((\<forall>i<16. \<forall>j<16. p ! (r * 16 + i) ! (c * 16 + j) = 1) \<longrightarrow> q ! (r * cols + c) = 1)
               \<and> ((\<forall>i<16. \<forall>j<16. p ! (r * 16 + i) ! (c * 16 + j) = 0) \<longrightarrow> q ! (r * cols + c) = 0))"
proof -
  let ?q = "concat (map (\<lambda>r. map (patch_mean p r) [0..<cols]) [0..<rows])"
  have run: "mask_quantized [p] = Inr ?q"
    using assms(1-3) by (rule mask_quantized_eq)
  have len: "length ?q = rows * cols"
    by (rule length_concat_grid)
  have at: "\<And>r c. r < rows \<Longrightarrow> c < cols \<Longrightarrow> ?q ! (r * cols + c) = patch_mean p r c"
    by (rule concat_grid_nth)
  have rng: "\<And>r c. r < rows \<Longrightarrow> c < cols \<Longrightarrow> 0 \<le> patch_mean p r c \<and> patch_mean p r c \<le> 1"
    by (rule patch_mean_between) (rule plane_pixel[OF assms(1) assms(4)])
  have "\<forall>r<rows. \<forall>c<cols.
                 ?q ! (r * cols + c) = patch_mean p r c
               \<and> 0 \<le> ?q ! (r * cols + c) \<and> ?q ! (r * cols + c) \<le> 1
               \<and> ((\<forall>i<16. \<forall>j<16. p ! (r * 16 + i) ! (c * 16 + j) = 1) \<longrightarrow> ?q ! (r * cols + c) = 1)
               \<and> ((\<forall>i<16. \<forall>j<16. p ! (r * 16 + i) ! (c * 16 + j) = 0) \<longrightarrow> ?q ! (r * cols + c) = 0)"
  proof (intro allI impI)
    fix r c assume rc: "r < rows" "c < cols"
    have one: "(\<forall>i<16. \<forall>j<16. p ! (r * 16 + i) ! (c * 16 + j) = 1) \<longrightarrow> patch_mean p r c = 1"
      by (auto intro: patch_mean_uniform)
    have zero: "(\<forall>i<16. \<forall>j<16. p ! (r * 16 + i) ! (c * 16 + j) = 0) \<longrightarrow> patch_mean p r c = 0"
      by (auto intro: patch_mean_uniform)
    show "?q ! (r * cols + c) = patch_mean p r c
               \<and> 0 \<le> ?q ! (r * cols + c) \<and> ?q ! (r * cols + c) \<le> 1
               \<and> ((\<forall>i<16. \<forall>j<16. p ! (r * 16 + i) ! (c * 16 + j) = 1) \<longrightarrow> ?q ! (r * cols + c) = 1)
               \<and> ((\<forall>i<16. \<forall>j<16. p ! (r * 16 + i) ! (c * 16 + j) = 0) \<longrightarrow> ?q ! (r * cols + c) = 0)"
      using at[OF rc] rng[OF rc] one zero by simp
  qed
  with run len show ?thesis by blast
qed

theorem C5_label_quantizer_witness:
  "plane_shape (replicate 16 (replicate 16 1)) (1 * 16) (1 * 16)
   \<and> list_all (list_all (\<lambda>v. 0 \<le> v \<and> v \<le> (1::real))) (replicate 16 (replicate 16 1))
   \<and> mask_quantized [replicate 16 (replicate 16 1)] = Inr [1]"
proof -
  let ?p = "replicate 16 (replicate 16 (1::real))"
  have shape: "plane_shape ?p (1 * 16) (1 * 16)"
    by (simp add: plane_shape_def list_all_iff)
  have vals: "list_all (list_all (\<lambda>v. 0 \<le> v \<and> v \<le> (1::real))) ?p"
    by (simp add: list_all_iff)
  obtain q where q: "mask_quantized [?p] = Inr q" "length q = 1 * 1"
    and at: "\<forall>r<1. \<forall>c<1. q ! (r * 1 + c) = patch_mean ?p r c
               \<and> 0 \<le> q ! (r * 1 + c) \<and> q ! (r * 1 + c) \<le> 1
               \<and> ((\<forall>i<16. \<forall>j<16. ?p ! (r * 16 + i) ! (c * 16 + j) = 1) \<longrightarrow> q ! (r * 1 + c) = 1)
               \<and> ((\<forall>i<16. \<forall>j<16. ?p ! (r * 16 + i) ! (c * 16 + j) = 0) \<longrightarrow> q ! (r * 1 + c) = 0)"
    using C5_label_quantizer[OF shape _ _ vals, of ] by auto
  have "q ! 0 = 1" using at by simp
  moreover have "q = [q ! 0]" using q(2) by (cases q) auto
  ultimately have "q = [1]" by simp
  with q(1) shape vals show ?thesis by simp
qed

text \<open>
  C7. For an RGB image of size \<open>(w, h)\<close> whose grid has \<open>cols\<close> columns, once the resampler
  has returned a raster \<open>r\<close> of the requested shape \<open>768 \<times> cols * 16 \<times> 3\<close>,
  \<open>preprocess_image\<close> returns a tensor of shape \<open>[1, 3, 48 * 16, cols * 16]\<close> whose entry at
  channel \<open>c\<close>, row \<open>y\<close> and column \<open>x\<close> is \<open>(r[y][x][c] / 255 - mean[c]) / std[c]\<close>, with
  the means \<open>(0.485, 0.456, 0.406)\<close> and the deviations \<open>(0.229, 0.224, 0.225)\<close>.
\<close>

theorem C7_preprocess_image_tensor:
  fixes w h cols :: nat
  assumes "img_size img = (w, h)" and "0 < w" and "0 < h"
    and "cols = (w * 768) div (h * 16)" and "0 < cols"
    and "pil_resize env img (int (cols * 16), 768) = Inr r"
    and "raster_shape (img_data r) 768 (cols * 16) 3"
  shows "\<exists>t. preprocess_image env img IMAGE_SIZE PATCH_SIZE = Inr [t]
           \<and> length t = 3
           \<and> (\<forall>c<3. length (t ! c) = 48 * 16
                \<and> (\<forall>y<48 * 16. length (t ! c ! y) = cols * 16
                     \<and> (\<forall>x<cols * 16. t ! c ! y ! x
                           = (img_data r ! y ! x ! c / 255 - IMAGENET_MEAN ! c) / IMAGENET_STD ! c)))
           \<and> IMAGENET_MEAN = [0.485, 0.456, 0.406]
           \<and> IMAGENET_STD = [0.229, 0.224, 0.225]"
proof -
  have g: "preprocess_image_geometry (int w, int h) IMAGE_SIZE PATCH_SIZE
         = Inr \<lparr>h_patches = 48, w_patches = int cols, target_size = (768, int cols * 16)\<rparr>"
    using preprocess_image_geometry_pos[of "int w" "int h"] assms(2,3,4)
    by (simp add: int_cols)
  have run: "preprocess_image env img IMAGE_SIZE PATCH_SIZE = normalize_image (img_data r)"
    using assms(6) by (simp add: preprocess_image_def assms(1) g and_then_def)
  have pos: "0 < cols * 16" using assms(5) by simp
  obtain t where t: "normalize_image (img_data r) = Inr [t]" "length t = 3"
    "\<forall>c<3. length (t ! c) = 768
        \<and> (\<forall>y<768. length (t ! c ! y) = cols * 16
             \<and> (\<forall>x<cols * 16. t ! c ! y ! x
                   = (img_data r ! y ! x ! c / 255 - IMAGENET_MEAN ! c) / IMAGENET_STD ! c))"
    using normalize_image_spec[OF assms(7) _ pos] by auto
  show ?thesis
    using t run by (simp add: IMAGENET_MEAN_def IMAGENET_STD_def)
qed

theorem C7_preprocess_image_tensor_witness:
  "\<exists>t. preprocess_image sample_env sample_rgb IMAGE_SIZE PATCH_SIZE = Inr [t]
     \<and> length t = 3 \<and> length (t ! 2) = 768 \<and> length (t ! 2 ! 767) = 768
     \<and> t ! 2 ! 767 ! 767 = (0 / 255 - 0.406) / 0.225"
proof -
  let ?r = "\<lparr>img_mode = ''RGB'', img_size = (768, 768),
             img_data = replicate 768 (replicate 768 (replicate 3 (0::real)))\<rparr>"
  have sz: "img_size sample_rgb = (1, 1)" by (simp add: sample_rgb_def)
  have c: "(48::nat) = (1 * 768) div (1 * 16)" by simp
  have rs: "pil_resize sample_env sample_rgb (int (48 * 16), 768) = Inr ?r"
    by (simp add: sample_env_def sample_rgb_def getbands_def)
  have shp: "raster_shape (img_data ?r) 768 (48 * 16) 3"
    by (simp add: raster_shape_def list_all_iff)
  obtain t where t: "preprocess_image sample_env sample_rgb IMAGE_SIZE PATCH_SIZE = Inr [t]"
      "length t = 3"
      "\<forall>c<3. length (t ! c) = 48 * 16
                \<and> (\<forall>y<48 * 16. length (t ! c ! y) = 48 * 16
                     \<and> (\<forall>x<48 * 16. t ! c ! y ! x
                           = (img_data ?r ! y ! x ! c / 255 - IMAGENET_MEAN ! c) / IMAGENET_STD ! c))"
    using C7_preprocess_image_tensor[OF sz _ _ c _ rs shp] by auto
  have "length (t ! 2) = 768 \<and> length (t ! 2 ! 767) = 768
        \<and> t ! 2 ! 767 ! 767 = (0 / 255 - 0.406) / 0.225"
    using t(3) by (simp add: IMAGENET_MEAN_def IMAGENET_STD_def)
  with t(1,2) show ?thesis by blast
qed

text \<open>
  C6. If the resamplers and the feature extractor honour their shape contracts and the
  loop over a batch returns the lists \<open>xs\<close> and \<open>ys\<close>, then the two tables have the same
  length, the sum of the patch counts of the accepted (RGBA) images; the same holds after
  every prefix of the batch, and for the two concatenated arrays.
\<close>

theorem C6_tables_equal_length:
  assumes "resamplers_ok env" and "extractor_ok env"
    and "aligner_loop env imgs ([], []) = Inr (xs, ys)"
  shows "length (concat (map arr_rows xs)) = length (concat ys)
       \<and> length (concat ys) = sum_list (map patch_count (filter (\<lambda>i. img_mode i = ''RGBA'') imgs))
       \<and> (\<forall>k\<le>length imgs. \<exists>xk yk.
              aligner_loop env (take k imgs) ([], []) = Inr (xk, yk)
            \<and> length (concat (map arr_rows xk)) = length (concat yk)
            \<and> length (concat yk)
                = sum_list (map patch_count (filter (\<lambda>i. img_mode i = ''RGBA'') (take k imgs))))
       \<and> (\<forall>X Y. np_concatenate_rows xs = Inr X \<and> np_concatenate_flat ys = Inr Y
              \<longrightarrow> length (arr_rows X) = length Y)"
proof -
  have whole: "length (concat (map arr_rows xs)) = length (concat ys)
       \<and> length (concat ys) = sum_list (map patch_count (filter (\<lambda>i. img_mode i = ''RGBA'') imgs))"
    using aligner_loop_counts[OF assms] by simp
  have prefix: "\<forall>k\<le>length imgs. \<exists>xk yk.
              aligner_loop env (take k imgs) ([], []) = Inr (xk, yk)
            \<and> length (concat (map arr_rows xk)) = length (concat yk)
            \<and> length (concat yk)
                = sum_list (map patch_count (filter (\<lambda>i. img_mode i = ''RGBA'') (take k imgs)))"
  proof (intro allI impI)
    fix k assume "k \<le> length imgs"
    have "aligner_loop env (take k imgs @ drop k imgs) ([], []) = Inr (xs, ys)"
      using assms(3) by simp
    then have "and_then (aligner_loop env (take k imgs) ([], [])) (aligner_loop env (drop k imgs))
                 = Inr (xs, ys)"
      by (simp only: aligner_loop_append)
    then obtain xk yk where pk: "aligner_loop env (take k imgs) ([], []) = Inr (xk, yk)"
      by (cases "aligner_loop env (take k imgs) ([], [])") (auto simp: and_then_def)
    show "\<exists>xk yk. aligner_loop env (take k imgs) ([], []) = Inr (xk, yk)
            \<and> length (concat (map arr_rows xk)) = length (concat yk)
            \<and> length (concat yk)
                = sum_list (map patch_count (filter (\<lambda>i. img_mode i = ''RGBA'') (take k imgs)))"
      using pk aligner_loop_counts[OF assms(1,2) pk] by simp
  qed
  have cat: "\<forall>X Y. np_concatenate_rows xs = Inr X \<and> np_concatenate_flat ys = Inr Y
              \<longrightarrow> length (arr_rows X) = length Y"
  proof (intro allI impI)
    fix X Y assume a: "np_concatenate_rows xs = Inr X \<and> np_concatenate_flat ys = Inr Y"
    have "arr_rows X = concat (map arr_rows xs)"
      using a by (auto simp: np_concatenate_rows_def split: list.splits if_splits)
    moreover have "Y = concat ys"
      using a by (auto simp: np_concatenate_flat_def split: list.splits)
    ultimately show "length (arr_rows X) = length Y" using whole by simp
  qed
  from whole prefix cat show ?thesis by blast
qed

theorem C6_tables_equal_length_witness:
  "resamplers_ok sample_env \<and> extractor_ok sample_env
   \<and> (\<exists>xs ys. aligner_loop sample_env [sample_rgba, sample_rgb] ([], []) = Inr (xs, ys)
         \<and> length (concat (map arr_rows xs)) = 2304 \<and> length (concat ys) = 2304)"
proof -
  obtain mq feats where p: "process_image sample_env sample_rgba = Inr (mq, feats)"
    using process_image_sample by blast
  have m1: "img_mode sample_rgba = ''RGBA''" by (simp add: sample_rgba_def)
  have m2: "img_mode sample_rgb \<noteq> ''RGBA''" by (simp add: sample_rgb_def)
  have run: "aligner_loop sample_env [sample_rgba, sample_rgb] ([], []) = Inr ([feats], [mq])"
    by (simp add: p and_then_def m1 m2)
  have "length (concat (map arr_rows [feats])) = length (concat [mq])
      \<and> length (concat [mq])
          = sum_list (map patch_count (filter (\<lambda>i. img_mode i = ''RGBA'') [sample_rgba, sample_rgb]))"
    using C6_tables_equal_length[OF resamplers_ok_sample extractor_ok_sample run] by blast
  moreover have "sum_list (map patch_count (filter (\<lambda>i. img_mode i = ''RGBA'') [sample_rgba, sample_rgb])) = 2304"
    by (simp add: patch_count_def sample_rgba_def sample_rgb_def)
  ultimately have "length (concat (map arr_rows [feats])) = 2304 \<and> length (concat [mq]) = 2304"
    by simp
  with run resamplers_ok_sample extractor_ok_sample show ?thesis by blast
qed

text \<open>
  C1. The specification binarizes the label at 0.5; line 133 binarizes it at 0. The two
  differ on a Clean-Subset label strictly between 0 and 0.01. The patch with one
  foreground pixel out of 256 has the soft label \<open>1 / 256\<close>; the filter keeps it (it is
  below 0.01), and the target handed to \<open>fit\<close> is class 1, although \<open>1 / 256\<close> is not
  above 0.5.
\<close>

theorem C1_positive_label_below_threshold:
  "mask_quantized [one_pixel_patch] = Inr [1 / 256]
   \<and> mask_select [1 / 256 :: real] (clean_idx [1 / 256]) = [1 / 256]
   \<and> fit_targets [1 / 256] = [1]
   \<and> \<not> (1 / 256 > (0.5 :: real))
   \<and> train_and_export env [\<lparr>arr_ncols = 1, arr_rows = [[0]]\<rparr>] [[1 / 256]]
       = and_then (fit env \<lparr>arr_ncols = 1, arr_rows = [[0]]\<rparr> [1])
           (\<lambda>clf. export_classifier env clf \<lparr>arr_ncols = 1, arr_rows = [[0]]\<rparr>)"
proof -
  have a: "mask_quantized [one_pixel_patch] = Inr [1 / 256]"
    by code_simp
  have b: "mask_select [1 / 256 :: real] (clean_idx [1 / 256]) = [1 / 256]"
    by (simp add: mask_select_def clean_idx_def)
  have c: "fit_targets [1 / 256] = [1]"
    by (simp add: fit_targets_def)
  have d: "train_and_export env [\<lparr>arr_ncols = 1, arr_rows = [[0]]\<rparr>] [[1 / 256]]
       = and_then (fit env \<lparr>arr_ncols = 1, arr_rows = [[0]]\<rparr> [1])
           (\<lambda>clf. export_classifier env clf \<lparr>arr_ncols = 1, arr_rows = [[0]]\<rparr>)"
    by (simp add: train_and_export_def np_concatenate_rows_def np_concatenate_flat_def
        and_then_def Let_def np_mask_rows_def clean_idx_def mask_select_def fit_targets_def)
  from a b c d show ?thesis by simp
qed

text \<open>
  C2, as stated, fails. A batch with a single image of mode RGB has no accepted image: the
  run ends with \<open>ValueError\<close>, raised by the concatenation of an empty list, and status
  \<open>failed\<close>. A table whose only label is 0.5 has an empty Clean Subset: \<open>fit\<close> is called on
  the empty table, and the error is the one \<open>fit\<close> raises. No exception of the name
  \<open>InsufficientTrainingData\<close> occurs.
\<close>

theorem C2_insufficient_data_counterexample:
  "img_mode sample_rgb \<noteq> ''RGBA''
   \<and> training_body sample_env [sample_rgb] = Inl ValueError
   \<and> train_classifier_op sample_env sample_record [sample_rgb]
       = ([sample_record\<lparr>status := ''training''\<rparr>, sample_record\<lparr>status := ''failed''\<rparr>],
          Inl ValueError)
   \<and> train_and_export sample_env [\<lparr>arr_ncols = 2, arr_rows = [[0, 0]]\<rparr>] [[1 / 2]] = Inl ValueError
   \<and> exc_name ValueError \<noteq> ''InsufficientTrainingData''"
proof -
  have m: "img_mode sample_rgb \<noteq> ''RGBA''" by (simp add: sample_rgb_def)
  then have tb: "training_body sample_env [sample_rgb] = Inl ValueError"
    by (intro training_body_no_rgba) simp
  have op: "train_classifier_op sample_env sample_record [sample_rgb]
       = ([sample_record\<lparr>status := ''training''\<rparr>, sample_record\<lparr>status := ''failed''\<rparr>],
          Inl ValueError)"
    by (simp add: train_classifier_op_def tb Let_def)
  have te: "train_and_export sample_env [\<lparr>arr_ncols = 2, arr_rows = [[0, 0]]\<rparr>] [[1 / 2]] = Inl ValueError"
    by (simp add: train_and_export_def np_concatenate_rows_def np_concatenate_flat_def
        and_then_def Let_def np_mask_rows_def clean_idx_def mask_select_def fit_targets_def
        sample_env_def)
  from m tb op te show ?thesis by simp
qed

text \<open>
  C2, amended. When no image is accepted, the run fails with \<open>ValueError\<close> before \<open>fit\<close> is
  called, whatever the library calls do, and the record ends with status \<open>failed\<close>. When
  the Clean Subset of a non-empty table is empty, the op makes no check of its own: it
  calls \<open>fit\<close> on the table with no rows and no targets, and the run fails with the
  exception of \<open>fit\<close> when \<open>fit\<close> raises one.
\<close>

theorem C2_no_training_data:
  "(filter (\<lambda>i. img_mode i = ''RGBA'') imgs = [] \<longrightarrow>
       training_body env imgs = Inl ValueError
     \<and> train_classifier_op env r imgs
         = ([r\<lparr>status := ''training''\<rparr>, r\<lparr>status := ''failed''\<rparr>], Inl ValueError))
   \<and> (np_concatenate_rows xs = Inr X \<and> ys \<noteq> []
        \<and> length (concat ys) = length (arr_rows X)
        \<and> list_all (\<lambda>y. 0.01 \<le> y \<and> y \<le> 0.99) (concat ys) \<longrightarrow>
       train_and_export env xs ys
         = and_then (fit env (X\<lparr>arr_rows := []\<rparr>) [])
             (\<lambda>clf. export_classifier env clf (X\<lparr>arr_rows := []\<rparr>))
     \<and> (\<forall>e. fit env (X\<lparr>arr_rows := []\<rparr>) [] = Inl e \<longrightarrow> train_and_export env xs ys = Inl e))"
proof (intro conjI impI)
  assume a: "filter (\<lambda>i. img_mode i = ''RGBA'') imgs = []"
  then show tb: "training_body env imgs = Inl ValueError"
    by (rule training_body_no_rgba)
  show "train_classifier_op env r imgs
         = ([r\<lparr>status := ''training''\<rparr>, r\<lparr>status := ''failed''\<rparr>], Inl ValueError)"
    by (simp add: train_classifier_op_def tb Let_def)
next
  assume b: "np_concatenate_rows xs = Inr X \<and> ys \<noteq> []
        \<and> length (concat ys) = length (arr_rows X)
        \<and> list_all (\<lambda>y. 0.01 \<le> y \<and> y \<le> 0.99) (concat ys)"
  then show te: "train_and_export env xs ys
         = and_then (fit env (X\<lparr>arr_rows := []\<rparr>) [])
             (\<lambda>clf. export_classifier env clf (X\<lparr>arr_rows := []\<rparr>))"
    by (intro train_and_export_ambiguous) simp_all
  show "\<forall>e. fit env (X\<lparr>arr_rows := []\<rparr>) [] = Inl e \<longrightarrow> train_and_export env xs ys = Inl e"
    by (simp add: te and_then_def)
qed

theorem C2_no_training_data_witness:
  "training_body sample_env [sample_rgb] = Inl ValueError
   \<and> train_classifier_op sample_env sample_record [sample_rgb]
       = ([sample_record\<lparr>status := ''training''\<rparr>, sample_record\<lparr>status := ''failed''\<rparr>],
          Inl ValueError)
   \<and> fit sample_env \<lparr>arr_ncols = 2, arr_rows = []\<rparr> [] = Inl ValueError
   \<and> train_and_export sample_env [\<lparr>arr_ncols = 2, arr_rows = [[0, 0]]\<rparr>] [[1 / 2]] = Inl ValueError"
proof -
  let ?X = "\<lparr>arr_ncols = 2, arr_rows = [[0, 0 :: real]]\<rparr>"
  have f: "filter (\<lambda>i. img_mode i = ''RGBA'') [sample_rgb] = []"
    by (simp add: sample_rgb_def)
  have c: "np_concatenate_rows [?X] = Inr ?X \<and> [[1 / 2 :: real]] \<noteq> []
        \<and> length (concat [[1 / 2 :: real]]) = length (arr_rows ?X)
        \<and> list_all (\<lambda>y. 0.01 \<le> y \<and> y \<le> 0.99) (concat [[1 / 2 :: real]])"
    by (simp add: np_concatenate_rows_def)
  have e: "fit sample_env (?X\<lparr>arr_rows := []\<rparr>) [] = Inl ValueError"
    by (simp add: sample_env_def)
  show ?thesis
    using C2_no_training_data[of "[sample_rgb]" sample_env sample_record "[?X]" ?X "[[1 / 2]]"] f c e
    by (simp add: and_then_def)
qed

text \<open>
  C8. An image whose mode is not \<open>RGBA\<close> leaves the two lists as they are and raises
  nothing; the loop, the body and the whole op give the same result on a batch and on the
  batch without its non-RGBA images.
\<close>

theorem C8_non_rgba_images_skipped:
  "aligner_loop env imgs acc = aligner_loop env (filter (\<lambda>i. img_mode i = ''RGBA'') imgs) acc
   \<and> training_body env imgs = training_body env (filter (\<lambda>i. img_mode i = ''RGBA'') imgs)
   \<and> train_classifier_op env r imgs
       = train_classifier_op env r (filter (\<lambda>i. img_mode i = ''RGBA'') imgs)
   \<and> (img_mode x \<noteq> ''RGBA'' \<longrightarrow> aligner_loop env (x # rest) acc = aligner_loop env rest acc)"
proof -
  have a: "\<And>acc. aligner_loop env imgs acc
             = aligner_loop env (filter (\<lambda>i. img_mode i = ''RGBA'') imgs) acc"
    by (rule aligner_loop_filter)
  have b: "training_body env imgs = training_body env (filter (\<lambda>i. img_mode i = ''RGBA'') imgs)"
    unfolding training_body_def by (subst a) (rule refl)
  have c: "train_classifier_op env r imgs
       = train_classifier_op env r (filter (\<lambda>i. img_mode i = ''RGBA'') imgs)"
    unfolding train_classifier_op_def by (subst b) (rule refl)
  have d: "img_mode x \<noteq> ''RGBA'' \<longrightarrow> aligner_loop env (x # rest) acc = aligner_loop env rest acc"
    by (cases acc) simp
  from a b c d show ?thesis by blast
qed

theorem C8_non_rgba_images_skipped_witness:
  "img_mode sample_rgb \<noteq> ''RGBA''
   \<and> training_body sample_env [sample_rgba, sample_rgba, sample_rgb, sample_rgba, sample_rgba]
       = Inr sample_model
   \<and> train_classifier_op sample_env sample_record
        [sample_rgba, sample_rgba, sample_rgb, sample_rgba, sample_rgba]
       = train_classifier_op sample_env sample_record
           [sample_rgba, sample_rgba, sample_rgba, sample_rgba]"
proof -
  have m1: "img_mode sample_rgba = ''RGBA''" by (simp add: sample_rgba_def)
  have m2: "img_mode sample_rgb \<noteq> ''RGBA''" by (simp add: sample_rgb_def)
  have f: "filter (\<lambda>i. img_mode i = ''RGBA'')
             [sample_rgba, sample_rgba, sample_rgb, sample_rgba, sample_rgba]
           = [sample_rgba, sample_rgba, sample_rgba, sample_rgba]"
    by (simp add: m1 m2)
  show ?thesis
    using C8_non_rgba_images_skipped
            [of sample_env "[sample_rgba, sample_rgba, sample_rgb, sample_rgba, sample_rgba]"
                _ sample_record]
          m2 training_body_sample_batch
    unfolding f by simp
qed

text \<open>
  C9. The op asks the converter for exactly one input, named \<open>patch_features\<close>, a float
  tensor of shape \<open>[None, feature_dim]\<close> with \<open>feature_dim = xs_clean.shape[1]\<close>, with
  \<open>zipmap\<close> off and opset 17; a graph returned by a converter that honours its arguments
  declares that input, gives the class scores as one tensor, and is of opset 17.
\<close>

theorem C9_exported_graph_interface:
  assumes "converter_ok env" and "export_classifier env clf xs_clean = Inr onx"
  shows "graph_inputs onx
           = [(''patch_features'', FloatTensorType [None, Some (arr_ncols xs_clean)])]
       \<and> probabilities onx = FlatTensor
       \<and> opset_version onx = 17
       \<and> initial_types (export_request clf xs_clean)
           = [(''patch_features'', FloatTensorType [None, Some (arr_ncols xs_clean)])]
       \<and> \<not> zipmap (export_request clf xs_clean)
       \<and> target_opset (export_request clf xs_clean) = 17"
proof -
  have r: "to_onnx env (export_request clf xs_clean) = Inr onx"
    using assms(2) by (simp add: export_classifier_def)
  have "graph_inputs onx = initial_types (export_request clf xs_clean)
      \<and> opset_version onx = target_opset (export_request clf xs_clean)
      \<and> probabilities onx
          = (if zipmap (export_request clf xs_clean) then SequenceOfMaps else FlatTensor)"
    using assms(1) r unfolding converter_ok_def by blast
  then show ?thesis by (simp add: export_request_def)
qed

theorem C9_exported_graph_interface_witness:
  "converter_ok sample_env
   \<and> export_classifier sample_env \<lparr>coef = [0, 0], intercept = 0\<rparr>
        \<lparr>arr_ncols = 2, arr_rows = [[0, 0]]\<rparr> = Inr sample_model
   \<and> graph_inputs sample_model = [(''patch_features'', FloatTensorType [None, Some 2])]
   \<and> probabilities sample_model = FlatTensor
   \<and> opset_version sample_model = 17"
proof -
  have ok: "converter_ok sample_env"
    by (auto simp: converter_ok_def sample_env_def)
  have ex: "export_classifier sample_env \<lparr>coef = [0, 0], intercept = 0\<rparr>
        \<lparr>arr_ncols = 2, arr_rows = [[0, 0]]\<rparr> = Inr sample_model"
    by (simp add: export_classifier_def export_request_def sample_env_def sample_model_def)
  show ?thesis
    using C9_exported_graph_interface[OF ok ex] ok ex by simp
qed

text \<open>
  C10. The op first writes status \<open>training\<close>. If the body raises \<open>e\<close>, at whatever stage,
  the op writes status \<open>failed\<close> and \<open>e\<close> leaves the op; status \<open>ready\<close> is written, together
  with the exported graph, only when the body has returned the graph, so a run that
  fails never shows status \<open>ready\<close>.
\<close>

theorem C10_status_after_run:
  "(\<forall>e. training_body env imgs = Inl e \<longrightarrow>
        train_classifier_op env r imgs
          = ([r\<lparr>status := ''training''\<rparr>, r\<lparr>status := ''failed''\<rparr>], Inl e))
   \<and> (\<forall>onx. training_body env imgs = Inr onx \<longrightarrow>
        train_classifier_op env r imgs
          = ([r\<lparr>status := ''training''\<rparr>,
              r\<lparr>status := ''ready'', classifier_file := Some onx\<rparr>], Inr ()))
   \<and> (\<forall>e. aligner_loop env imgs ([], []) = Inl e \<longrightarrow> training_body env imgs = Inl e)
   \<and> (\<forall>xs ys e. aligner_loop env imgs ([], []) = Inr (xs, ys) \<and> train_and_export env xs ys = Inl e
        \<longrightarrow> training_body env imgs = Inl e)
   \<and> (\<forall>e. snd (train_classifier_op env r imgs) = Inl e \<longrightarrow>
        map status (fst (train_classifier_op env r imgs)) = [''training'', ''failed''])
   \<and> (''ready'' \<in> set (map status (fst (train_classifier_op env r imgs)))
        \<longrightarrow> (\<exists>onx. training_body env imgs = Inr onx
                   \<and> snd (train_classifier_op env r imgs) = Inr ()))"
  by (cases "training_body env imgs")
     (auto simp: train_classifier_op_def training_body_def Let_def and_then_def)

theorem C10_status_after_run_witness:
  "train_classifier_op sample_env sample_record [sample_rgb]
     = ([sample_record\<lparr>status := ''training''\<rparr>, sample_record\<lparr>status := ''failed''\<rparr>],
        Inl ValueError)
   \<and> train_classifier_op sample_env sample_record [sample_rgba]
     = ([sample_record\<lparr>status := ''training''\<rparr>,
         sample_record\<lparr>status := ''ready'', classifier_file := Some sample_model\<rparr>], Inr ())"
proof -
  have "img_mode sample_rgb \<noteq> ''RGBA''" by (simp add: sample_rgb_def)
  then have tb: "training_body sample_env [sample_rgb] = Inl ValueError"
    by (intro training_body_no_rgba) simp
  show ?thesis
    using C10_status_after_run[of sample_env "[sample_rgb]" sample_record]
          C10_status_after_run[of sample_env "[sample_rgba]" sample_record]
          tb training_body_sample
    by simp
qed

end
